theory Spec2Isabelle
  imports Complex_Main "HOL-Library.AList" "HOL-Library.Log_Nat"
begin

section \<open>The position-booking ledger of rqalpha/model/booking.py\<close>

text \<open>
  The theory embeds the classes \<^verbatim>\<open>BookingPosition\<close>, \<^verbatim>\<open>BookingPositions\<close> and
  \<^verbatim>\<open>BookingModel\<close> of \<^verbatim>\<open>src/rqalpha/model/booking.py\<close>.

  \<^item> Quantities and prices are Python numbers; they are modelled as exact rationals
    (\<^typ>\<open>rat\<close>), and the methods compute with the exact operations.
    Python's \<^verbatim>\<open>/\<close> raises \<^verbatim>\<open>ZeroDivisionError\<close> on a zero divisor; the model
    returns that error. Where a property depends on the rounding of Python's floats (the
    product of old_quantity and avg_price across a split), the settlement is evaluated a
    second time with every arithmetic result rounded to binary64.
  \<^item> The objects are mutated in place; every method of the model takes the state and
    returns the state after the call. A method that can raise returns the exception (if any)
    together with the state in which the call left the object, so that a partial mutation
    before a \<^verbatim>\<open>raise\<close> would be visible.
  \<^item> A Python dict is an association list with distinct keys, in insertion order;
    \<^verbatim>\<open>d[k] = v\<close> is \<^const>\<open>AList.update\<close> and \<^verbatim>\<open>d.pop(k)\<close> is
    \<^const>\<open>AList.delete\<close> (after the check that the key is there).
\<close>

subsection \<open>Constants of rqalpha.const\<close>

text \<open>
  The module \<^verbatim>\<open>rqalpha.const\<close> is not part of the sources at hand. The code compares
  \<^verbatim>\<open>trade.side\<close> with \<^verbatim>\<open>SIDE.BUY\<close> and \<^verbatim>\<open>SIDE.SELL\<close>, and
  \<^verbatim>\<open>trade.position_effect\<close> with \<^verbatim>\<open>None\<close>, \<^verbatim>\<open>POSITION_EFFECT.OPEN\<close>,
  \<^verbatim>\<open>CLOSE\<close> and \<^verbatim>\<open>CLOSE_TODAY\<close>; every other value takes the \<^verbatim>\<open>else\<close>
  branches. \<open>SIDE_OTHER\<close> and \<open>EFFECT_OTHER\<close> stand for those other values.
\<close>

datatype SIDE = BUY | SELL | SIDE_OTHER

datatype POSITION_EFFECT = OPEN | CLOSE | CLOSE_TODAY | EFFECT_OTHER

datatype POSITION_DIRECTION = LONG | SHORT

datatype error = RuntimeError string | ZeroDivisionError | KeyError

subsection \<open>Trades, instruments and the data proxy\<close>

text \<open>A date is its day number; a datetime is a day number and the seconds of the day.\<close>

type_synonym date = int

type_synonym datetime = "int \<times> nat"

definition date_of :: "datetime \<Rightarrow> date" where
  "date_of dt = fst dt"

record trade =
  exec_id :: nat
  order_book_id :: string
  side :: SIDE
  position_effect :: "POSITION_EFFECT option"
  last_price :: rat
  last_quantity :: rat

record instrument =
  instrument_type :: string
  de_listed_date :: "datetime option"
  contract_multiplier :: rat

text \<open>
  The data proxy is an external collaborator (its code is not in \<^verbatim>\<open>booking.py\<close>): the
  model takes it as a parameter, a record of the read-only queries that the booking code
  calls. A query that fails inside the proxy is outside the model.
  \<open>history_bars_close dp k d\<close> is
  \<^verbatim>\<open>history_bars(order_book_id=k, bar_count=1, frequency="1d", field="close", dt=d)[0]\<close>,
  "a single historical daily closing price for an instrument as of a date".
  \<open>DEFAULT_DE_LISTED_DATE\<close> is the constant of that name of the class
  \<^verbatim>\<open>Instrument\<close>, which is not in the sources either.
\<close>

record data_proxy =
  instruments :: "string \<Rightarrow> instrument"
  current_snapshot_last :: "string \<Rightarrow> rat"
  get_next_trading_date :: "date \<Rightarrow> datetime"
  get_previous_trading_date :: "datetime \<Rightarrow> datetime"
  get_split_by_ex_date :: "string \<Rightarrow> date \<Rightarrow> rat option"
  get_settle_price :: "string \<Rightarrow> date \<Rightarrow> rat"
  history_bars_close :: "string \<Rightarrow> date \<Rightarrow> rat"
  DEFAULT_DE_LISTED_DATE :: datetime

subsection \<open>BookingPosition\<close>

record position =
  position_order_book_id :: string
  direction :: POSITION_DIRECTION
  old_quantity :: rat
  logical_old_quantity :: rat
  today_quantity :: rat
  avg_price :: rat
  prev_settlement_price :: rat
  trades :: "nat \<rightharpoonup> trade"

text \<open>
  \<^verbatim>\<open>BookingPosition.__init__\<close> with the default arguments, as \<^verbatim>\<open>__missing__\<close>
  of \<^verbatim>\<open>BookingPositions\<close> calls it.
\<close>

definition BookingPosition :: "string \<Rightarrow> POSITION_DIRECTION \<Rightarrow> position" where
  "BookingPosition k dir =
     \<lparr>position_order_book_id = k, direction = dir, old_quantity = 0,
      logical_old_quantity = 0, today_quantity = 0, avg_price = 0,
      prev_settlement_price = 0, trades = Map.empty\<rparr>"

definition quantity :: "position \<Rightarrow> rat" where
  "quantity p = old_quantity p + today_quantity p"

fun get_position_effect :: "SIDE \<Rightarrow> POSITION_EFFECT option \<Rightarrow> POSITION_EFFECT option" where
  "get_position_effect BUY None = Some OPEN"
| "get_position_effect SELL None = Some CLOSE"
| "get_position_effect s pe = pe"

text \<open>
  \<^verbatim>\<open>BookingPosition.apply_trade\<close> (lines 232 to 260). The three branches mutate
  \<^verbatim>\<open>_avg_price\<close>, \<^verbatim>\<open>_today_quantity\<close> and \<^verbatim>\<open>_old_quantity\<close> one assignment
  after the other; \<open>p1\<close>, \<open>p2\<close> are the states between the assignments.
\<close>

definition apply_open :: "position \<Rightarrow> trade \<Rightarrow> error option \<times> position" where
  "apply_open p t =
     (if quantity p < 0 then
        (let p1 = (if last_quantity t \<le> - 1 * quantity p
                   then p\<lparr>avg_price := 0\<rparr>
                   else p\<lparr>avg_price := last_price t\<rparr>)
         in (None, p1\<lparr>today_quantity := today_quantity p1 + last_quantity t\<rparr>))
      else if quantity p + last_quantity t = 0 then (Some ZeroDivisionError, p)
      else
        (let p1 = p\<lparr>avg_price :=
                      (quantity p * avg_price p + last_quantity t * last_price t)
                      / (quantity p + last_quantity t)\<rparr>
         in (None, p1\<lparr>today_quantity := today_quantity p1 + last_quantity t\<rparr>)))"

definition apply_close_today :: "position \<Rightarrow> trade \<Rightarrow> error option \<times> position" where
  "apply_close_today p t = (None, p\<lparr>today_quantity := today_quantity p - last_quantity t\<rparr>)"

definition apply_close :: "position \<Rightarrow> trade \<Rightarrow> error option \<times> position" where
  "apply_close p t =
     (let p1 = p\<lparr>old_quantity := old_quantity p - last_quantity t\<rparr>
      in if old_quantity p1 < 0
         then (let p2 = p1\<lparr>today_quantity := today_quantity p1 + old_quantity p1\<rparr>
               in (None, p2\<lparr>old_quantity := 0\<rparr>))
         else (None, p1))"

definition BookingPosition_apply_trade :: "position \<Rightarrow> trade \<Rightarrow> error option \<times> position" where
  "BookingPosition_apply_trade p t =
     (if trades p (exec_id t) \<noteq> None then (None, p)
      else
        (let r = (case get_position_effect (side t) (position_effect t) of
                    Some OPEN \<Rightarrow> apply_open p t
                  | Some CLOSE_TODAY \<Rightarrow> apply_close_today p t
                  | Some CLOSE \<Rightarrow> apply_close p t
                  | _ \<Rightarrow> (Some (RuntimeError ''Unknown side when apply trade: ''), p))
         in case fst r of
              Some e \<Rightarrow> r
            | None \<Rightarrow> (None, (snd r)\<lparr>trades := (trades (snd r))(exec_id t \<mapsto> t)\<rparr>)))"

text \<open>\<^verbatim>\<open>BookingPosition.apply_settlement\<close> (lines 211 to 230).\<close>

definition BookingPosition_apply_settlement :: "data_proxy \<Rightarrow> position \<Rightarrow> date \<Rightarrow> position" where
  "BookingPosition_apply_settlement dp p trading_date =
     (let next_trading_date = date_of (get_next_trading_date dp trading_date);
          p1 = p\<lparr>old_quantity := old_quantity p + today_quantity p\<rparr>;
          p2 = p1\<lparr>logical_old_quantity := old_quantity p1\<rparr>;
          p3 = p2\<lparr>today_quantity := 0\<rparr>;
          split_ratio = get_split_by_ex_date dp (position_order_book_id p3) next_trading_date;
          p4 = (case split_ratio of
                  None \<Rightarrow> p3
                | Some r \<Rightarrow>
                    if r = 0 then p3
                    else p3\<lparr>old_quantity := old_quantity p3 * r, avg_price := avg_price p3 / r\<rparr>);
          p5 = p4\<lparr>trades := Map.empty\<rparr>
      in if instrument_type (instruments dp (position_order_book_id p5)) = ''Future''
         then p5\<lparr>prev_settlement_price :=
                   get_settle_price dp (position_order_book_id p5) trading_date\<rparr>
         else p5\<lparr>prev_settlement_price :=
                   history_bars_close dp (position_order_book_id p5) trading_date\<rparr>)"

text \<open>
  Python's \<^verbatim>\<open>float\<close> is IEEE 754 binary64: the result of \<^verbatim>\<open>+\<close>, \<^verbatim>\<open>*\<close> or
  \<^verbatim>\<open>/\<close> on floats is the exact result rounded to the nearest binary64 number, a tie
  going to the even significand. \<open>binary64 x\<close> is that rounding of a rational \<open>x\<close>.
  The exponent \<open>e\<close> of \<open>x\<close> (with \<open>2 ^ e \<le> \<bar>x\<bar> < 2 ^ (e + 1)\<close>), taken not below
  \<open>- 1022\<close> (the subnormal numbers have the exponent of the smallest normal ones), gives
  the spacing \<open>2 ^ (e - 52)\<close> of the binary64 numbers around \<open>x\<close>, and \<open>x\<close> is
  rounded to a multiple of the spacing. A result of magnitude \<open>2 ^ 1024\<close> or more, which
  is \<^verbatim>\<open>inf\<close> in Python, is outside the definition.
\<close>

definition binary_exponent :: "rat \<Rightarrow> int" where
  "binary_exponent x =
     (if 1 \<le> \<bar>x\<bar> then bitlen \<lfloor>\<bar>x\<bar>\<rfloor> - 1
      else - bitlen (\<lceil>1 / \<bar>x\<bar>\<rceil> - 1))"

definition power2 :: "int \<Rightarrow> rat" where
  "power2 e = (if 0 \<le> e then 2 ^ nat e else 1 / 2 ^ nat (- e))"

definition round_half_even :: "rat \<Rightarrow> int" where
  "round_half_even y =
     (let f = \<lfloor>y\<rfloor>; d = y - of_int f
      in if d < 1 / 2 then f else if 1 / 2 < d then f + 1 else if even f then f else f + 1)"

definition binary64 :: "rat \<Rightarrow> rat" where
  "binary64 x =
     (if x = 0 then 0
      else (let ulp = power2 (max (binary_exponent x) (- 1022) - 52)
            in of_int (round_half_even (x / ulp)) * ulp))"

text \<open>
  \<^verbatim>\<open>BookingPosition.apply_settlement\<close> on a position whose numbers are floats, with a
  float ratio: the addition of line 214, the multiplication of line 220 and the division of
  line 221 are rounded; everything else is as in the definition above.
\<close>

definition BookingPosition_apply_settlement_binary64 ::
  "data_proxy \<Rightarrow> position \<Rightarrow> date \<Rightarrow> position" where
  "BookingPosition_apply_settlement_binary64 dp p trading_date =
     (let next_trading_date = date_of (get_next_trading_date dp trading_date);
          p1 = p\<lparr>old_quantity := binary64 (old_quantity p + today_quantity p)\<rparr>;
          p2 = p1\<lparr>logical_old_quantity := old_quantity p1\<rparr>;
          p3 = p2\<lparr>today_quantity := 0\<rparr>;
          split_ratio = get_split_by_ex_date dp (position_order_book_id p3) next_trading_date;
          p4 = (case split_ratio of
                  None \<Rightarrow> p3
                | Some r \<Rightarrow>
                    if r = 0 then p3
                    else p3\<lparr>old_quantity := binary64 (old_quantity p3 * r),
                            avg_price := binary64 (avg_price p3 / r)\<rparr>);
          p5 = p4\<lparr>trades := Map.empty\<rparr>
      in if instrument_type (instruments dp (position_order_book_id p5)) = ''Future''
         then p5\<lparr>prev_settlement_price :=
                   get_settle_price dp (position_order_book_id p5) trading_date\<rparr>
         else p5\<lparr>prev_settlement_price :=
                   history_bars_close dp (position_order_book_id p5) trading_date\<rparr>)"

text \<open>\<^verbatim>\<open>BookingPosition.is_de_listed\<close> (lines 262 to 269).\<close>

definition is_de_listed :: "data_proxy \<Rightarrow> position \<Rightarrow> date \<Rightarrow> bool" where
  "is_de_listed dp p trading_date =
     (let ins = instruments dp (position_order_book_id p)
      in case de_listed_date ins of
           None \<Rightarrow> False
         | Some dl \<Rightarrow>
             if dl = DEFAULT_DE_LISTED_DATE dp then False
             else if instrument_type ins = ''Future'' then date_of dl \<le> trading_date
             else date_of (get_previous_trading_date dp dl) \<le> trading_date)"

subsection \<open>BookingPositions and BookingModel\<close>

text \<open>
  A bucket (\<^verbatim>\<open>BookingPositions\<close>, a dict subclass) maps an order book id to its
  position. The model keeps the two buckets of \<^verbatim>\<open>_positions_dict\<close> as two fields;
  the bucket stored under a direction creates its positions with that direction, as the
  buckets that \<^verbatim>\<open>BookingModel.__init__\<close> builds do.
\<close>

record booking =
  long_positions :: "(string \<times> position) list"
  short_positions :: "(string \<times> position) list"
  backward_trade_set :: "nat set"

definition positions_dict :: "booking \<Rightarrow> POSITION_DIRECTION \<Rightarrow> (string \<times> position) list" where
  "positions_dict b dir = (case dir of LONG \<Rightarrow> long_positions b | SHORT \<Rightarrow> short_positions b)"

definition set_positions ::
  "POSITION_DIRECTION \<Rightarrow> (string \<times> position) list \<Rightarrow> booking \<Rightarrow> booking" where
  "set_positions dir ps b =
     (case dir of LONG \<Rightarrow> b\<lparr>long_positions := ps\<rparr> | SHORT \<Rightarrow> b\<lparr>short_positions := ps\<rparr>)"

text \<open>
  \<^verbatim>\<open>positions[key]\<close>: \<^verbatim>\<open>__missing__\<close> stores a new position under a key that is not
  there. The result is the bucket after the access and the position found.
\<close>

definition getitem ::
  "POSITION_DIRECTION \<Rightarrow> (string \<times> position) list \<Rightarrow> string
     \<Rightarrow> (string \<times> position) list \<times> position" where
  "getitem dir ps k =
     (case map_of ps k of
        Some p \<Rightarrow> (ps, p)
      | None \<Rightarrow> (AList.update k (BookingPosition k dir) ps, BookingPosition k dir))"

text \<open>The choice of the bucket in \<^verbatim>\<open>BookingModel.apply_trade\<close> (lines 67 to 83).\<close>

definition select_bucket :: "trade \<Rightarrow> error + POSITION_DIRECTION" where
  "select_bucket t =
     (if position_effect t = Some OPEN then
        (if side t = BUY then Inr LONG
         else if side t = SELL then Inr SHORT
         else Inl (RuntimeError ''unknown side, trade''))
      else if position_effect t = Some CLOSE \<or> position_effect t = Some CLOSE_TODAY then
        (if side t = BUY then Inr SHORT
         else if side t = SELL then Inr LONG
         else Inl (RuntimeError ''unknown side, trade''))
      else Inr LONG)"

text \<open>
  \<^verbatim>\<open>BookingModel.apply_trade\<close> (lines 62 to 86). The position is an object of the
  bucket, mutated in place: whatever \<^verbatim>\<open>position.apply_trade\<close> leaves is in the bucket,
  also when it raises.
\<close>

definition BookingModel_apply_trade :: "booking \<Rightarrow> trade \<Rightarrow> error option \<times> booking" where
  "BookingModel_apply_trade b t =
     (if exec_id t \<in> backward_trade_set b then (None, b)
      else
        (case select_bucket t of
           Inl e \<Rightarrow> (Some e, b)
         | Inr dir \<Rightarrow>
             (let got = getitem dir (positions_dict b dir) (order_book_id t);
                  r = BookingPosition_apply_trade (snd got) t;
                  b1 = set_positions dir (AList.update (order_book_id t) (snd r) (fst got)) b
              in case fst r of
                   Some e \<Rightarrow> (Some e, b1)
                 | None \<Rightarrow>
                     (None, b1\<lparr>backward_trade_set :=
                                 insert (exec_id t) (backward_trade_set b1)\<rparr>))))"

text \<open>
  \<^verbatim>\<open>BookingModel.apply_settlement\<close> (lines 49 to 60). The first loop visits the
  entries of a bucket in order: a position that is delisted or flat is appended to
  \<^verbatim>\<open>delete_list\<close> and left as it is, every other position is settled in place.
  \<open>scan_positions\<close> returns the bucket and the delete list after the loop.
\<close>

definition evicted :: "data_proxy \<Rightarrow> date \<Rightarrow> position \<Rightarrow> bool" where
  "evicted dp trading_date p = (is_de_listed dp p trading_date \<or> quantity p = 0)"

fun scan_positions ::
  "data_proxy \<Rightarrow> date \<Rightarrow> POSITION_DIRECTION \<Rightarrow> (string \<times> position) list
     \<Rightarrow> (string \<times> POSITION_DIRECTION) list
     \<Rightarrow> (string \<times> position) list \<times> (string \<times> POSITION_DIRECTION) list" where
  "scan_positions dp d dir [] delete_list = ([], delete_list)"
| "scan_positions dp d dir ((k, p) # ps) delete_list =
     (if evicted dp d p
      then (let r = scan_positions dp d dir ps (delete_list @ [(k, dir)])
            in ((k, p) # fst r, snd r))
      else (let r = scan_positions dp d dir ps delete_list
            in ((k, BookingPosition_apply_settlement dp p d) # fst r, snd r)))"

text \<open>The second loop: \<^verbatim>\<open>pop\<close> raises \<^verbatim>\<open>KeyError\<close> on a key that is not there.\<close>

fun pop_positions ::
  "(string \<times> POSITION_DIRECTION) list \<Rightarrow> booking \<Rightarrow> error option \<times> booking" where
  "pop_positions [] b = (None, b)"
| "pop_positions ((k, dir) # delete_list) b =
     (case map_of (positions_dict b dir) k of
        None \<Rightarrow> (Some KeyError, b)
      | Some p \<Rightarrow>
          pop_positions delete_list
            (set_positions dir (AList.delete k (positions_dict b dir)) b))"

definition BookingModel_apply_settlement ::
  "data_proxy \<Rightarrow> booking \<Rightarrow> date \<Rightarrow> error option \<times> booking" where
  "BookingModel_apply_settlement dp b trading_date =
     (let r1 = scan_positions dp trading_date LONG (long_positions b) [];
          r2 = scan_positions dp trading_date SHORT (short_positions b) (snd r1)
      in pop_positions (snd r2) (b\<lparr>long_positions := fst r1, short_positions := fst r2\<rparr>))"

text \<open>\<^verbatim>\<open>BookingModel.__init__\<close> with the default arguments: two empty buckets.\<close>

definition BookingModel :: booking where
  "BookingModel = \<lparr>long_positions = [], short_positions = [], backward_trade_set = {}\<rparr>"

text \<open>A bucket is a dict: no key occurs twice.\<close>

definition dict_keys_distinct :: "booking \<Rightarrow> bool" where
  "dict_keys_distinct b =
     (distinct (map fst (long_positions b)) \<and> distinct (map fst (short_positions b)))"

subsection \<open>Example inputs\<close>

text \<open>
  A data proxy for the examples: every instrument is a stock that is never delisted, the
  calendar has every day, the last close is 55, and the split ratio is the parameter.
\<close>

definition example_proxy :: "rat option \<Rightarrow> data_proxy" where
  "example_proxy split =
     \<lparr>instruments = (\<lambda>k. \<lparr>instrument_type = ''CS'', de_listed_date = None,
                             contract_multiplier = 1\<rparr>),
      current_snapshot_last = (\<lambda>k. 0),
      get_next_trading_date = (\<lambda>d. (d + 1, 0)),
      get_previous_trading_date = (\<lambda>dt. (fst dt - 1, 0)),
      get_split_by_ex_date = (\<lambda>k d. split),
      get_settle_price = (\<lambda>k d. 0),
      history_bars_close = (\<lambda>k d. 55),
      DEFAULT_DE_LISTED_DATE = (1095362, 0)\<rparr>"

definition example_position :: "rat \<Rightarrow> rat \<Rightarrow> rat \<Rightarrow> position" where
  "example_position old today price =
     (BookingPosition ''000001.XSHE'' LONG)
       \<lparr>old_quantity := old, logical_old_quantity := old, today_quantity := today,
        avg_price := price\<rparr>"

definition example_trade ::
  "nat \<Rightarrow> SIDE \<Rightarrow> POSITION_EFFECT option \<Rightarrow> rat \<Rightarrow> rat \<Rightarrow> trade" where
  "example_trade e s pe price q =
     \<lparr>exec_id = e, order_book_id = ''000001.XSHE'', side = s, position_effect = pe,
      last_price = price, last_quantity = q\<rparr>"

text \<open>
  A proxy in which the future \<open>IF1912\<close> is delisted on day 20200101, and a ledger with a
  flat position, a live position and a position in that future in the long bucket.
\<close>

definition example_proxy_delisted :: data_proxy where
  "example_proxy_delisted =
     (example_proxy None)
       \<lparr>instruments :=
          (\<lambda>k. if k = ''IF1912''
                then \<lparr>instrument_type = ''Future'', de_listed_date = Some (20200101, 0),
                      contract_multiplier = 300\<rparr>
                else instruments (example_proxy None) k)\<rparr>"

definition example_booking :: booking where
  "example_booking =
     \<lparr>long_positions =
        [(''000001.XSHE'', example_position 0 0 0),
         (''000002.XSHE'', (example_position 0 7 50)\<lparr>position_order_book_id := ''000002.XSHE''\<rparr>),
         (''IF1912'', (example_position 0 3 10)\<lparr>position_order_book_id := ''IF1912''\<rparr>)],
      short_positions =
        [(''000002.XSHE'',
          (example_position 4 0 20)\<lparr>position_order_book_id := ''000002.XSHE'',
                                      direction := SHORT\<rparr>)],
      backward_trade_set = {}\<rparr>"

section \<open>Properties\<close>

lemma get_position_effect_Some [simp]:
  "get_position_effect s (Some e) = Some e"
  by (cases s) simp_all

subsection \<open>Facts about the application of a trade to a position\<close>

lemma apply_trade_raise_unchanged:
  "fst (BookingPosition_apply_trade p t) = Some e \<Longrightarrow> snd (BookingPosition_apply_trade p t) = p"
  by (auto simp add: BookingPosition_apply_trade_def apply_open_def apply_close_def
      apply_close_today_def Let_def
      split: if_splits option.splits POSITION_EFFECT.splits)

lemma apply_trade_raise_gate:
  "fst (BookingPosition_apply_trade p t) = Some e \<Longrightarrow> trades p (exec_id t) = None"
  by (auto simp add: BookingPosition_apply_trade_def split: if_splits)

lemma apply_trade_recorded:
  "fst (BookingPosition_apply_trade p t) = None
     \<Longrightarrow> trades (snd (BookingPosition_apply_trade p t)) (exec_id t) \<noteq> None"
  by (auto simp add: BookingPosition_apply_trade_def Let_def split: if_splits option.splits)

lemma apply_trade_gate:
  "trades p (exec_id t) \<noteq> None \<Longrightarrow> BookingPosition_apply_trade p t = (None, p)"
  by (simp add: BookingPosition_apply_trade_def)

lemma position_apply_twice:
  "snd (BookingPosition_apply_trade (snd (BookingPosition_apply_trade p t)) t)
     = snd (BookingPosition_apply_trade p t)"
proof (cases "fst (BookingPosition_apply_trade p t)")
  case None
  then show ?thesis
    using apply_trade_gate [OF apply_trade_recorded] by simp
next
  case (Some e)
  then show ?thesis
    by (simp add: apply_trade_raise_unchanged)
qed

subsection \<open>Facts about the application of a trade to the ledger\<close>

lemma positions_dict_set_positions:
  "positions_dict (set_positions dir ps b) dir' = (if dir' = dir then ps else positions_dict b dir')"
  by (cases dir; cases dir') (simp_all add: positions_dict_def set_positions_def)

lemma backward_trade_set_set_positions:
  "backward_trade_set (set_positions dir ps b) = backward_trade_set b"
  by (cases dir) (simp_all add: set_positions_def)

lemma set_positions_twice:
  "set_positions dir ps (set_positions dir ps' b) = set_positions dir ps b"
  by (cases dir) (simp_all add: set_positions_def)

lemma set_positions_same:
  "set_positions dir (positions_dict b dir) b = b"
  by (cases dir) (simp_all add: set_positions_def positions_dict_def)

lemma map_of_getitem:
  "map_of (fst (getitem dir ps k)) = (map_of ps)(k \<mapsto> snd (getitem dir ps k))"
  by (auto simp add: getitem_def update_conv' split: option.splits)

lemma getitem_found:
  "map_of (fst (getitem dir ps k)) k = Some (snd (getitem dir ps k))"
  by (simp add: map_of_getitem)

lemma getitem_again:
  "map_of ps k = Some p \<Longrightarrow> getitem dir ps k = (ps, p)"
  by (simp add: getitem_def)

lemma model_apply_trade_raise:
  assumes "exec_id t \<notin> backward_trade_set b"
    and "select_bucket t = Inr dir"
    and "getitem dir (positions_dict b dir) (order_book_id t) = got"
    and "fst (BookingPosition_apply_trade (snd got) t) = Some e"
  shows "BookingModel_apply_trade b t = (Some e, set_positions dir (fst got) b)"
proof -
  have "snd (BookingPosition_apply_trade (snd got) t) = snd got"
    using assms(4) by (rule apply_trade_raise_unchanged)
  moreover have "AList.update (order_book_id t) (snd got) (fst got) = fst got"
    unfolding assms(3) [symmetric] by (rule update_triv) (rule getitem_found)
  ultimately show ?thesis
    using assms by (simp add: BookingModel_apply_trade_def Let_def)
qed

lemma model_apply_trade_done:
  assumes "exec_id t \<notin> backward_trade_set b"
    and "select_bucket t = Inr dir"
    and "getitem dir (positions_dict b dir) (order_book_id t) = got"
    and "fst (BookingPosition_apply_trade (snd got) t) = None"
  shows "BookingModel_apply_trade b t =
    (None, (set_positions dir
       (AList.update (order_book_id t) (snd (BookingPosition_apply_trade (snd got) t)) (fst got)) b)
       \<lparr>backward_trade_set := insert (exec_id t) (backward_trade_set b)\<rparr>)"
  using assms
  by (simp add: BookingModel_apply_trade_def Let_def backward_trade_set_set_positions)

lemma model_apply_twice:
  "snd (BookingModel_apply_trade (snd (BookingModel_apply_trade b t)) t)
     = snd (BookingModel_apply_trade b t)"
proof (cases "exec_id t \<in> backward_trade_set b")
  case True
  then show ?thesis by (simp add: BookingModel_apply_trade_def)
next
  case gate: False
  show ?thesis
  proof (cases "select_bucket t")
    case (Inl e)
    with gate show ?thesis by (simp add: BookingModel_apply_trade_def)
  next
    case (Inr dir)
    define got where "got = getitem dir (positions_dict b dir) (order_book_id t)"
    show ?thesis
    proof (cases "fst (BookingPosition_apply_trade (snd got) t)")
      case None
      have "exec_id t \<in> backward_trade_set (snd (BookingModel_apply_trade b t))"
        using model_apply_trade_done [OF gate Inr got_def [symmetric] None] by simp
      then show ?thesis by (simp add: BookingModel_apply_trade_def)
    next
      case (Some e)
      define b1 where "b1 = set_positions dir (fst got) b"
      have once: "BookingModel_apply_trade b t = (Some e, b1)"
        unfolding b1_def by (rule model_apply_trade_raise [OF gate Inr got_def [symmetric] Some])
      have gate1: "exec_id t \<notin> backward_trade_set b1"
        using gate by (simp add: b1_def backward_trade_set_set_positions)
      have "map_of (fst got) (order_book_id t) = Some (snd got)"
        unfolding got_def by (rule getitem_found)
      then have got1: "getitem dir (positions_dict b1 dir) (order_book_id t) = got"
        by (simp add: b1_def positions_dict_set_positions getitem_again)
      have "BookingModel_apply_trade b1 t = (Some e, set_positions dir (fst got) b1)"
        by (rule model_apply_trade_raise [OF gate1 Inr got1 Some])
      then have "BookingModel_apply_trade b1 t = (Some e, b1)"
        by (simp add: b1_def set_positions_twice)
      with once show ?thesis by simp
    qed
  qed
qed


lemma model_apply_trade_added:
  assumes "fst (BookingModel_apply_trade b t) = None"
  shows "exec_id t \<in> backward_trade_set (snd (BookingModel_apply_trade b t))"
proof (cases "exec_id t \<in> backward_trade_set b")
  case True
  then show ?thesis by (simp add: BookingModel_apply_trade_def)
next
  case False
  with assms show ?thesis
    by (auto simp add: BookingModel_apply_trade_def Let_def split: sum.splits option.splits)
qed

lemma positions_dict_backward_trade_set:
  "positions_dict (b\<lparr>backward_trade_set := X\<rparr>) dir = positions_dict b dir"
  by (cases dir) (simp_all add: positions_dict_def)

lemma model_apply_trade_buckets:
  assumes "exec_id t \<notin> backward_trade_set b"
    and "select_bucket t = Inr dir"
  shows "positions_dict (snd (BookingModel_apply_trade b t)) dir' =
     (if dir' = dir
      then AList.update (order_book_id t)
             (snd (BookingPosition_apply_trade
                     (snd (getitem dir (positions_dict b dir) (order_book_id t))) t))
             (fst (getitem dir (positions_dict b dir) (order_book_id t)))
      else positions_dict b dir')"
  using assms
  by (simp add: BookingModel_apply_trade_def Let_def positions_dict_set_positions
      positions_dict_backward_trade_set split: option.splits)

lemma model_apply_trade_raise_set:
  assumes "fst (BookingModel_apply_trade b t) = Some e"
  shows "backward_trade_set (snd (BookingModel_apply_trade b t)) = backward_trade_set b
    \<and> exec_id t \<notin> backward_trade_set b"
  using assms
  by (auto simp add: BookingModel_apply_trade_def Let_def backward_trade_set_set_positions
      split: if_splits sum.splits option.splits)

lemma model_apply_trade_raise_cases:
  assumes "fst (BookingModel_apply_trade b t) = Some e"
  shows "(\<exists>m. select_bucket t = Inl m \<and> snd (BookingModel_apply_trade b t) = b)
    \<or> (\<exists>dir. select_bucket t = Inr dir
          \<and> fst (BookingPosition_apply_trade
                   (snd (getitem dir (positions_dict b dir) (order_book_id t))) t) = Some e
          \<and> snd (BookingModel_apply_trade b t)
              = set_positions dir (fst (getitem dir (positions_dict b dir) (order_book_id t))) b)"
proof -
  from assms have gate: "exec_id t \<notin> backward_trade_set b"
    by (simp add: model_apply_trade_raise_set)
  show ?thesis
  proof (cases "select_bucket t")
    case (Inl m)
    with gate show ?thesis by (simp add: BookingModel_apply_trade_def)
  next
    case (Inr dir)
    from assms gate Inr
    have r: "fst (BookingPosition_apply_trade
                   (snd (getitem dir (positions_dict b dir) (order_book_id t))) t) = Some e"
      by (simp add: BookingModel_apply_trade_def Let_def split: option.splits)
    show ?thesis
      using Inr r model_apply_trade_raise [OF gate Inr refl r] by simp
  qed
qed

subsection \<open>Facts about the settlement of the ledger\<close>

lemma scan_positions_eq:
  "scan_positions dp d dir ps dl =
     (map (\<lambda>(k, p). (k, if evicted dp d p then p else BookingPosition_apply_settlement dp p d)) ps,
      dl @ map (\<lambda>(k, p). (k, dir)) (filter (\<lambda>(k, p). evicted dp d p) ps))"
  by (induction ps arbitrary: dl) (auto simp add: Let_def)

lemma filter_delete:
  "filter P (AList.delete k xs) = filter (\<lambda>x. fst x \<noteq> k \<and> P x) xs"
  by (induction xs) auto

lemma pop_positions_present:
  assumes "\<forall>(k, dir) \<in> set dl. k \<in> fst ` set (positions_dict b dir)"
    and "distinct dl"
  shows "pop_positions dl b =
     (None, b\<lparr>long_positions := filter (\<lambda>x. (fst x, LONG) \<notin> set dl) (long_positions b),
               short_positions := filter (\<lambda>x. (fst x, SHORT) \<notin> set dl) (short_positions b)\<rparr>)"
  using assms
proof (induction dl arbitrary: b)
  case Nil
  then show ?case by simp
next
  case (Cons x dl)
  obtain k dir where x: "x = (k, dir)" by (cases x)
  define b1 where "b1 = set_positions dir (AList.delete k (positions_dict b dir)) b"
  from Cons.prems x have "k \<in> fst ` set (positions_dict b dir)" by simp
  then obtain p where found: "map_of (positions_dict b dir) k = Some p"
    by (metis map_of_eq_None_iff not_Some_eq)
  have step: "pop_positions (x # dl) b = pop_positions dl b1"
    by (simp add: x found b1_def)
  have keys: "\<forall>(k', dir') \<in> set dl. k' \<in> fst ` set (positions_dict b1 dir')"
  proof (clarify)
    fix k' dir'
    assume mem: "(k', dir') \<in> set dl"
    with Cons.prems(1) have in_b: "k' \<in> fst ` set (positions_dict b dir')" by auto
    from mem Cons.prems(2) x have "(k', dir') \<noteq> (k, dir)" by auto
    with in_b show "k' \<in> fst ` set (positions_dict b1 dir')"
      by (auto simp add: b1_def positions_dict_set_positions AList.delete_eq)
  qed
  from Cons.prems(2) have "distinct dl" by simp
  from Cons.IH [OF keys this] have ih: "pop_positions dl b1 =
     (None, b1\<lparr>long_positions := filter (\<lambda>x. (fst x, LONG) \<notin> set dl) (long_positions b1),
                short_positions := filter (\<lambda>x. (fst x, SHORT) \<notin> set dl) (short_positions b1)\<rparr>)" .
  show ?case
    unfolding step ih
    by (cases dir)
      (simp_all add: b1_def x set_positions_def positions_dict_def filter_delete)
qed

lemma distinct_delete_list:
  "distinct (map fst xs) \<Longrightarrow> distinct (map (\<lambda>(k, p). (k, dir)) (filter P xs))"
  by (induction xs) (auto simp add: image_iff)

lemma marked_iff_evicted:
  assumes "distinct (map fst xs)" and "(k, p) \<in> set xs"
  shows "(k, dir) \<in> set (map (\<lambda>(k, p). (k, dir)) (filter (\<lambda>(k, p). evicted dp d p) xs))
           \<longleftrightarrow> evicted dp d p"
proof
  assume "(k, dir) \<in> set (map (\<lambda>(k, p). (k, dir)) (filter (\<lambda>(k, p). evicted dp d p) xs))"
  then obtain p' where "(k, p') \<in> set xs" and ev: "evicted dp d p'" by auto
  with assms have "p' = p" by (meson eq_key_imp_eq_value)
  with ev show "evicted dp d p" by simp
next
  assume "evicted dp d p"
  with assms(2) show "(k, dir) \<in> set (map (\<lambda>(k, p). (k, dir)) (filter (\<lambda>(k, p). evicted dp d p) xs))"
    by (auto simp add: image_iff intro!: bexI [of _ "(k, p)"])
qed

lemma filter_scanned:
  assumes "distinct (map fst xs)"
    and "\<And>k. (k, dir) \<in> set dl \<longleftrightarrow>
           (k, dir) \<in> set (map (\<lambda>(k, p). (k, dir)) (filter (\<lambda>(k, p). evicted dp d p) xs))"
  shows "filter (\<lambda>x. (fst x, dir) \<notin> set dl)
           (map (\<lambda>(k, p). (k, if evicted dp d p then p
                                else BookingPosition_apply_settlement dp p d)) xs)
         = map (\<lambda>(k, p). (k, BookingPosition_apply_settlement dp p d))
             (filter (\<lambda>(k, p). \<not> evicted dp d p) xs)"
proof -
  have mark: "(fst x, dir) \<in> set dl \<longleftrightarrow> evicted dp d (snd x)" if "x \<in> set xs" for x
    using marked_iff_evicted [OF assms(1), of "fst x" "snd x" dir dp d] that assms(2) by simp
  have "filter (\<lambda>x. (fst x, dir) \<notin> set dl)
           (map (\<lambda>(k, p). (k, if evicted dp d p then p
                                else BookingPosition_apply_settlement dp p d)) xs)
        = map (\<lambda>(k, p). (k, if evicted dp d p then p
                                else BookingPosition_apply_settlement dp p d))
            (filter (\<lambda>x. (fst x, dir) \<notin> set dl) xs)"
    by (simp add: filter_map comp_def case_prod_beta)
  also have "filter (\<lambda>x. (fst x, dir) \<notin> set dl) xs = filter (\<lambda>(k, p). \<not> evicted dp d p) xs"
    by (rule filter_cong) (auto simp add: mark)
  also have "map (\<lambda>(k, p). (k, if evicted dp d p then p
                                else BookingPosition_apply_settlement dp p d))
               (filter (\<lambda>(k, p). \<not> evicted dp d p) xs)
           = map (\<lambda>(k, p). (k, BookingPosition_apply_settlement dp p d))
               (filter (\<lambda>(k, p). \<not> evicted dp d p) xs)"
    by (rule map_cong) auto
  finally show ?thesis .
qed

lemma model_apply_settlement_eq:
  assumes "dict_keys_distinct b"
  shows "BookingModel_apply_settlement dp b d =
    (None, b\<lparr>long_positions :=
                map (\<lambda>(k, p). (k, BookingPosition_apply_settlement dp p d))
                  (filter (\<lambda>(k, p). \<not> evicted dp d p) (long_positions b)),
              short_positions :=
                map (\<lambda>(k, p). (k, BookingPosition_apply_settlement dp p d))
                  (filter (\<lambda>(k, p). \<not> evicted dp d p) (short_positions b))\<rparr>)"
proof -
  define g :: "string \<times> position \<Rightarrow> string \<times> position"
    where "g = (\<lambda>(k, p). (k, if evicted dp d p then p
                                else BookingPosition_apply_settlement dp p d))"
  define ml where "ml = map (\<lambda>(k, p). (k, LONG)) (filter (\<lambda>(k, p). evicted dp d p) (long_positions b))"
  define ms where "ms = map (\<lambda>(k, p). (k, SHORT)) (filter (\<lambda>(k, p). evicted dp d p) (short_positions b))"
  define b1 where "b1 = b\<lparr>long_positions := map g (long_positions b),
                            short_positions := map g (short_positions b)\<rparr>"
  from assms have dl: "distinct (map fst (long_positions b))"
    and ds: "distinct (map fst (short_positions b))"
    by (simp_all add: dict_keys_distinct_def)
  have unfold: "BookingModel_apply_settlement dp b d = pop_positions (ml @ ms) b1"
    by (simp add: BookingModel_apply_settlement_def Let_def scan_positions_eq
        g_def ml_def ms_def b1_def)
  have fst_g: "fst ` set (map g xs) = fst ` set xs" for xs
    by (force simp add: g_def image_iff split: prod.splits)
  have keys: "\<forall>(k, dir) \<in> set (ml @ ms). k \<in> fst ` set (positions_dict b1 dir)"
  proof (clarify)
    fix k dir
    assume "(k, dir) \<in> set (ml @ ms)"
    then have "(dir = LONG \<and> k \<in> fst ` set (long_positions b))
        \<or> (dir = SHORT \<and> k \<in> fst ` set (short_positions b))"
      by (force simp add: ml_def ms_def image_iff)
    then show "k \<in> fst ` set (positions_dict b1 dir)"
      by (force simp add: b1_def positions_dict_def fst_g simp del: set_map)
  qed
  have dist: "distinct (ml @ ms)"
    using distinct_delete_list [OF dl] distinct_delete_list [OF ds]
    by (auto simp add: ml_def ms_def)
  have inl: "(k, LONG) \<in> set (ml @ ms) \<longleftrightarrow> (k, LONG) \<in> set ml" for k
    by (auto simp add: ms_def)
  have ins: "(k, SHORT) \<in> set (ml @ ms) \<longleftrightarrow> (k, SHORT) \<in> set ms" for k
    by (auto simp add: ml_def)
  have long: "filter (\<lambda>x. (fst x, LONG) \<notin> set (ml @ ms)) (map g (long_positions b))
      = map (\<lambda>(k, p). (k, BookingPosition_apply_settlement dp p d))
          (filter (\<lambda>(k, p). \<not> evicted dp d p) (long_positions b))"
    unfolding g_def
  proof (rule filter_scanned [OF dl])
    fix k
    show "(k, LONG) \<in> set (ml @ ms) \<longleftrightarrow>
      (k, LONG) \<in> set (map (\<lambda>(k, p). (k, LONG))
                        (filter (\<lambda>(k, p). evicted dp d p) (long_positions b)))"
      using inl [of k] by (simp add: ml_def)
  qed
  have short: "filter (\<lambda>x. (fst x, SHORT) \<notin> set (ml @ ms)) (map g (short_positions b))
      = map (\<lambda>(k, p). (k, BookingPosition_apply_settlement dp p d))
          (filter (\<lambda>(k, p). \<not> evicted dp d p) (short_positions b))"
    unfolding g_def
  proof (rule filter_scanned [OF ds])
    fix k
    show "(k, SHORT) \<in> set (ml @ ms) \<longleftrightarrow>
      (k, SHORT) \<in> set (map (\<lambda>(k, p). (k, SHORT))
                         (filter (\<lambda>(k, p). evicted dp d p) (short_positions b)))"
      using ins [of k] by (simp add: ms_def)
  qed
  show ?thesis
    unfolding unfold pop_positions_present [OF keys dist]
    using long short by (simp add: b1_def)
qed

lemma map_of_settled:
  assumes "distinct (map fst xs)"
  shows "map_of (map (\<lambda>(k, p). (k, f p)) (filter (\<lambda>(k, p). \<not> P p) xs)) k =
     (case map_of xs k of None \<Rightarrow> None | Some p \<Rightarrow> if P p then None else Some (f p))"
  using assms
proof (induction xs)
  case Nil
  then show ?case by simp
next
  case (Cons x xs)
  obtain k' p' where x: "x = (k', p')" by (cases x)
  from Cons.prems x have notin: "k' \<notin> fst ` set xs" and dist: "distinct (map fst xs)"
    by simp_all
  have gone: "map_of (map (\<lambda>(k, p). (k, f p)) (filter (\<lambda>(k, p). \<not> P p) xs)) k' = None"
    using notin by (force simp add: map_of_eq_None_iff image_iff)
  show ?case
    using Cons.IH [OF dist] gone by (simp add: x)
qed

subsection \<open>Facts about the rounding to binary64\<close>

text \<open>
  The exponent that \<open>binary_exponent\<close> computes is the one of the binary representation,
  and \<open>binary64\<close> moves a number by at most half the spacing at that exponent.
\<close>

lemma round_half_even_near: "\<bar>of_int (round_half_even y) - y\<bar> \<le> 1 / 2"
  unfolding round_half_even_def Let_def
  by (auto simp add: abs_if) linarith+

lemma binary_exponent_large:
  assumes "1 \<le> \<bar>x\<bar>"
  shows "power2 (binary_exponent x) \<le> \<bar>x\<bar> \<and> \<bar>x\<bar> < power2 (binary_exponent x + 1)"
proof -
  define n where "n = \<lfloor>\<bar>x\<bar>\<rfloor>"
  from assms have pos: "0 < n" by (simp add: n_def)
  from bitlen_bounds [OF pos] have lo: "2 ^ nat (bitlen n - 1) \<le> n" and hi: "n < 2 ^ nat (bitlen n)"
    by simp_all
  from pos have k: "1 \<le> bitlen n"
    using bitlen_eq_zero_iff [of n] bitlen_nonneg [of n] by linarith
  have "(2::rat) ^ nat (bitlen n - 1) = of_int (2 ^ nat (bitlen n - 1))" by simp
  also have "\<dots> \<le> of_int n" using lo by (simp only: of_int_le_iff)
  also have "\<dots> \<le> \<bar>x\<bar>" by (simp add: n_def)
  finally have a: "(2::rat) ^ nat (bitlen n - 1) \<le> \<bar>x\<bar>" .
  have "\<bar>x\<bar> < of_int (n + 1)" unfolding n_def by linarith
  also have "\<dots> \<le> of_int (2 ^ nat (bitlen n))" using hi by (simp only: of_int_le_iff; simp)
  finally have b: "\<bar>x\<bar> < (2::rat) ^ nat (bitlen n)" by simp
  from assms k a b show ?thesis
    by (simp add: binary_exponent_def power2_def n_def [symmetric])
qed

lemma binary_exponent_small:
  assumes "x \<noteq> 0" and "\<bar>x\<bar> < 1"
  shows "power2 (binary_exponent x) \<le> \<bar>x\<bar> \<and> \<bar>x\<bar> < power2 (binary_exponent x + 1)"
proof -
  define y where "y = 1 / \<bar>x\<bar>"
  define m where "m = \<lceil>y\<rceil> - 1"
  from assms have y1: "1 < y" by (simp add: y_def)
  then have pos: "0 < m" unfolding m_def by linarith
  from bitlen_bounds [OF pos] have lo: "2 ^ nat (bitlen m - 1) \<le> m" and hi: "m < 2 ^ nat (bitlen m)"
    by simp_all
  from pos have k: "1 \<le> bitlen m"
    using bitlen_eq_zero_iff [of m] bitlen_nonneg [of m] by linarith
  have xy: "\<bar>x\<bar> = 1 / y" using assms by (simp add: y_def)
  have "y \<le> of_int (m + 1)" by (simp add: m_def)
  also have "\<dots> \<le> of_int (2 ^ nat (bitlen m))" using hi by (simp only: of_int_le_iff; simp)
  finally have a: "y \<le> (2::rat) ^ nat (bitlen m)" by simp
  have "(2::rat) ^ nat (bitlen m - 1) = of_int (2 ^ nat (bitlen m - 1))" by simp
  also have "\<dots> \<le> of_int m" using lo by (simp only: of_int_le_iff)
  also have "\<dots> < y" unfolding m_def by linarith
  finally have b: "(2::rat) ^ nat (bitlen m - 1) < y" .
  from a y1 have a': "1 / 2 ^ nat (bitlen m) \<le> \<bar>x\<bar>"
    unfolding xy by (simp add: field_simps)
  from b y1 have b': "\<bar>x\<bar> < 1 / 2 ^ nat (bitlen m - 1)"
    unfolding xy by (simp add: field_simps)
  have e: "binary_exponent x = - bitlen m"
    using assms by (simp add: binary_exponent_def m_def y_def)
  have n1: "nat (- (1 - bitlen m)) = nat (bitlen m - 1)" by simp
  show ?thesis
  proof (cases "bitlen m = 1")
    case True
    with a' b' show ?thesis by (simp add: e power2_def)
  next
    case False
    with k have "1 < bitlen m" by simp
    with a' b' show ?thesis by (simp add: e power2_def n1)
  qed
qed

lemma binary_exponent_bounds:
  "x \<noteq> 0 \<Longrightarrow> power2 (binary_exponent x) \<le> \<bar>x\<bar> \<and> \<bar>x\<bar> < power2 (binary_exponent x + 1)"
  using binary_exponent_large [of x] binary_exponent_small [of x] by (cases "1 \<le> \<bar>x\<bar>") auto

lemma power2_pos: "0 < power2 e"
  by (simp add: power2_def)

lemma binary64_near:
  assumes "x \<noteq> 0"
  shows "\<bar>binary64 x - x\<bar> \<le> power2 (max (binary_exponent x) (- 1022) - 52) / 2"
proof -
  define u where "u = power2 (max (binary_exponent x) (- 1022) - 52)"
  have u: "0 < u" by (simp add: u_def power2_pos)
  have "binary64 x - x = (of_int (round_half_even (x / u)) - x / u) * u"
    using assms u by (simp add: binary64_def Let_def u_def [symmetric] field_simps)
  then have "\<bar>binary64 x - x\<bar> = \<bar>of_int (round_half_even (x / u)) - x / u\<bar> * u"
    using u by (simp add: abs_mult)
  also have "\<dots> \<le> (1 / 2) * u"
    using round_half_even_near [of "x / u"] u by (intro mult_right_mono) simp_all
  finally show ?thesis by (simp add: u_def)
qed

subsection \<open>The claims about a position and a trade\<close>

text \<open>
  Claim C1. A trade that is new to the position (its execution id is not a key of the
  trades map, so the call passes the check of line 233) and whose resolved effect is CLOSE
  is applied without error: its quantity is subtracted from old_quantity; when the
  difference is negative it is added to today_quantity and old_quantity becomes 0,
  otherwise today_quantity is as before.
\<close>

theorem close_old_before_today:
  assumes "trades p (exec_id t) = None"
    and "get_position_effect (side t) (position_effect t) = Some CLOSE"
  shows "fst (BookingPosition_apply_trade p t) = None
    \<and> old_quantity (snd (BookingPosition_apply_trade p t)) =
        (if old_quantity p - last_quantity t < 0 then 0 else old_quantity p - last_quantity t)
    \<and> today_quantity (snd (BookingPosition_apply_trade p t)) =
        (if old_quantity p - last_quantity t < 0
         then today_quantity p + (old_quantity p - last_quantity t)
         else today_quantity p)"
  using assms
  by (simp add: BookingPosition_apply_trade_def apply_close_def Let_def)

theorem close_old_before_today_witness:
  "trades (example_position 5 3 0) (exec_id (example_trade 1 SELL (Some CLOSE) 10 6)) = None
   \<and> get_position_effect (side (example_trade 1 SELL (Some CLOSE) 10 6))
        (position_effect (example_trade 1 SELL (Some CLOSE) 10 6)) = Some CLOSE
   \<and> fst (BookingPosition_apply_trade (example_position 5 3 0)
        (example_trade 1 SELL (Some CLOSE) 10 6)) = None
   \<and> old_quantity (snd (BookingPosition_apply_trade (example_position 5 3 0)
        (example_trade 1 SELL (Some CLOSE) 10 6))) = 0
   \<and> today_quantity (snd (BookingPosition_apply_trade (example_position 5 3 0)
        (example_trade 1 SELL (Some CLOSE) 10 6))) = 2"
  using close_old_before_today
    [of "example_position 5 3 0" "example_trade 1 SELL (Some CLOSE) 10 6"]
  by (simp add: example_position_def example_trade_def BookingPosition_def)

text \<open>
  Claim C2, as the claim states it, fails: on a flat position an OPEN trade of quantity 0
  passes the check of line 233 and reaches the division of line 245 with the divisor
  \<open>quantity + last_quantity = 0\<close>. Python raises \<^verbatim>\<open>ZeroDivisionError\<close>: avg_price
  is not assigned, today_quantity is not increased and the trade is not recorded.
\<close>

theorem open_flat_zero_quantity_counterexample:
  "trades (example_position 0 0 0) (exec_id (example_trade 1 BUY (Some OPEN) 100 0)) = None
   \<and> get_position_effect (side (example_trade 1 BUY (Some OPEN) 100 0))
        (position_effect (example_trade 1 BUY (Some OPEN) 100 0)) = Some OPEN
   \<and> \<not> quantity (example_position 0 0 0) < 0
   \<and> BookingPosition_apply_trade (example_position 0 0 0)
        (example_trade 1 BUY (Some OPEN) 100 0)
       = (Some ZeroDivisionError, example_position 0 0 0)"
  by (simp add: example_position_def example_trade_def BookingPosition_def quantity_def
      BookingPosition_apply_trade_def apply_open_def)

text \<open>
  Claim C2, amended. A trade that is new to the position and whose resolved effect is OPEN
  is applied without error whenever the quantity of the position is negative or the sum
  \<open>quantity + last_quantity\<close> is not zero. avg_price is computed from the quantity
  before the trade: for a negative quantity it is 0 when the trade quantity is at most the
  absolute value of the quantity and the price of the trade otherwise; for a quantity that
  is not negative it is the weighted average
  \<open>(quantity * avg_price + last_quantity * last_price) / (quantity + last_quantity)\<close>.
  Then today_quantity grows by the trade quantity.
\<close>

theorem open_updates_avg_price:
  assumes "trades p (exec_id t) = None"
    and "get_position_effect (side t) (position_effect t) = Some OPEN"
    and "quantity p < 0 \<or> quantity p + last_quantity t \<noteq> 0"
  shows "fst (BookingPosition_apply_trade p t) = None
    \<and> avg_price (snd (BookingPosition_apply_trade p t)) =
        (if quantity p < 0
         then (if last_quantity t \<le> \<bar>quantity p\<bar> then 0 else last_price t)
         else (quantity p * avg_price p + last_quantity t * last_price t)
              / (quantity p + last_quantity t))
    \<and> today_quantity (snd (BookingPosition_apply_trade p t)) =
        today_quantity p + last_quantity t"
  using assms
  by (auto simp add: BookingPosition_apply_trade_def apply_open_def Let_def)

theorem open_updates_avg_price_witness:
  "(trades (snd (BookingPosition_apply_trade (example_position 0 0 0)
              (example_trade 1 BUY (Some OPEN) 100 10)))
      (exec_id (example_trade 2 BUY (Some OPEN) 200 10)) = None
    \<and> get_position_effect (side (example_trade 2 BUY (Some OPEN) 200 10))
         (position_effect (example_trade 2 BUY (Some OPEN) 200 10)) = Some OPEN
    \<and> quantity (snd (BookingPosition_apply_trade (example_position 0 0 0)
         (example_trade 1 BUY (Some OPEN) 100 10))) + last_quantity (example_trade 2 BUY (Some OPEN) 200 10) \<noteq> 0)
   \<and> avg_price (snd (BookingPosition_apply_trade
        (snd (BookingPosition_apply_trade (example_position 0 0 0)
           (example_trade 1 BUY (Some OPEN) 100 10)))
        (example_trade 2 BUY (Some OPEN) 200 10))) = 150
   \<and> today_quantity (snd (BookingPosition_apply_trade
        (snd (BookingPosition_apply_trade (example_position 0 0 0)
           (example_trade 1 BUY (Some OPEN) 100 10)))
        (example_trade 2 BUY (Some OPEN) 200 10))) = 20
   \<and> (quantity (example_position (- 10) 0 100) < 0
        \<and> avg_price (snd (BookingPosition_apply_trade (example_position (- 10) 0 100)
             (example_trade 3 BUY None 120 15))) = 120
        \<and> avg_price (snd (BookingPosition_apply_trade (example_position (- 10) 0 100)
             (example_trade 4 BUY None 120 10))) = 0)"
  using open_updates_avg_price
    [of "snd (BookingPosition_apply_trade (example_position 0 0 0)
           (example_trade 1 BUY (Some OPEN) 100 10))"
        "example_trade 2 BUY (Some OPEN) 200 10"]
    open_updates_avg_price
    [of "example_position (- 10) 0 100" "example_trade 3 BUY None 120 15"]
    open_updates_avg_price
    [of "example_position (- 10) 0 100" "example_trade 4 BUY None 120 10"]
  by (simp add: example_position_def example_trade_def BookingPosition_def quantity_def
      BookingPosition_apply_trade_def apply_open_def)

text \<open>
  Claim C9. A trade that is new to the position and whose resolved effect is CLOSE_TODAY is
  applied without error: today_quantity decreases by the trade quantity, whatever the sign
  of the difference, and old_quantity, logical_old_quantity and avg_price are as before.
\<close>

theorem close_today_no_clamp:
  assumes "trades p (exec_id t) = None"
    and "get_position_effect (side t) (position_effect t) = Some CLOSE_TODAY"
  shows "fst (BookingPosition_apply_trade p t) = None
    \<and> today_quantity (snd (BookingPosition_apply_trade p t)) =
        today_quantity p - last_quantity t
    \<and> old_quantity (snd (BookingPosition_apply_trade p t)) = old_quantity p
    \<and> logical_old_quantity (snd (BookingPosition_apply_trade p t)) = logical_old_quantity p
    \<and> avg_price (snd (BookingPosition_apply_trade p t)) = avg_price p"
  using assms
  by (simp add: BookingPosition_apply_trade_def apply_close_today_def)

theorem close_today_no_clamp_witness:
  "trades (example_position 5 3 40) (exec_id (example_trade 1 SELL (Some CLOSE_TODAY) 10 6)) = None
   \<and> get_position_effect (side (example_trade 1 SELL (Some CLOSE_TODAY) 10 6))
        (position_effect (example_trade 1 SELL (Some CLOSE_TODAY) 10 6)) = Some CLOSE_TODAY
   \<and> today_quantity (snd (BookingPosition_apply_trade (example_position 5 3 40)
        (example_trade 1 SELL (Some CLOSE_TODAY) 10 6))) = - 3
   \<and> old_quantity (snd (BookingPosition_apply_trade (example_position 5 3 40)
        (example_trade 1 SELL (Some CLOSE_TODAY) 10 6))) = 5"
  using close_today_no_clamp
    [of "example_position 5 3 40" "example_trade 1 SELL (Some CLOSE_TODAY) 10 6"]
  by (simp add: example_position_def example_trade_def BookingPosition_def)

subsection \<open>The claims about the ledger and a trade\<close>

text \<open>
  Claim C3. Applying a trade a second time, to the ledger or to a position, leaves the
  state that the first application produced. When the first application completed, the
  execution id is in backward_trade_set (in the trades map of the position), and the second
  call returns at once. When the first application raised, the second one meets the state
  of the first and leaves it as it is.
\<close>

theorem apply_trade_idempotent:
  "snd (BookingModel_apply_trade (snd (BookingModel_apply_trade b t)) t)
     = snd (BookingModel_apply_trade b t)
   \<and> snd (BookingPosition_apply_trade (snd (BookingPosition_apply_trade p t)) t)
     = snd (BookingPosition_apply_trade p t)
   \<and> (fst (BookingModel_apply_trade b t) = None \<longrightarrow>
        exec_id t \<in> backward_trade_set (snd (BookingModel_apply_trade b t))
        \<and> BookingModel_apply_trade (snd (BookingModel_apply_trade b t)) t
            = (None, snd (BookingModel_apply_trade b t)))
   \<and> (fst (BookingPosition_apply_trade p t) = None \<longrightarrow>
        trades (snd (BookingPosition_apply_trade p t)) (exec_id t) \<noteq> None
        \<and> BookingPosition_apply_trade (snd (BookingPosition_apply_trade p t)) t
            = (None, snd (BookingPosition_apply_trade p t)))"
proof -
  have "BookingModel_apply_trade (snd (BookingModel_apply_trade b t)) t
          = (None, snd (BookingModel_apply_trade b t))"
    if "fst (BookingModel_apply_trade b t) = None"
    using model_apply_trade_added [OF that] by (simp add: BookingModel_apply_trade_def)
  moreover have "BookingPosition_apply_trade (snd (BookingPosition_apply_trade p t)) t
          = (None, snd (BookingPosition_apply_trade p t))"
    if "fst (BookingPosition_apply_trade p t) = None"
    using apply_trade_recorded [OF that] by (rule apply_trade_gate)
  ultimately show ?thesis
    by (simp add: model_apply_twice position_apply_twice model_apply_trade_added
        apply_trade_recorded)
qed

theorem apply_trade_idempotent_witness:
  "fst (BookingModel_apply_trade BookingModel (example_trade 1 BUY (Some OPEN) 100 10)) = None
   \<and> fst (BookingPosition_apply_trade (example_position 0 0 0)
        (example_trade 1 BUY (Some OPEN) 100 10)) = None
   \<and> BookingModel_apply_trade
        (snd (BookingModel_apply_trade BookingModel (example_trade 1 BUY (Some OPEN) 100 10)))
        (example_trade 1 BUY (Some OPEN) 100 10)
      = (None, snd (BookingModel_apply_trade BookingModel (example_trade 1 BUY (Some OPEN) 100 10)))
   \<and> BookingPosition_apply_trade
        (snd (BookingPosition_apply_trade (example_position 0 0 0)
           (example_trade 1 BUY (Some OPEN) 100 10)))
        (example_trade 1 BUY (Some OPEN) 100 10)
      = (None, snd (BookingPosition_apply_trade (example_position 0 0 0)
           (example_trade 1 BUY (Some OPEN) 100 10)))"
proof -
  have m: "fst (BookingModel_apply_trade BookingModel (example_trade 1 BUY (Some OPEN) 100 10)) = None"
    by (simp add: BookingModel_apply_trade_def BookingModel_def example_trade_def
        select_bucket_def getitem_def positions_dict_def BookingPosition_def
        BookingPosition_apply_trade_def apply_open_def quantity_def Let_def)
  have p: "fst (BookingPosition_apply_trade (example_position 0 0 0)
        (example_trade 1 BUY (Some OPEN) 100 10)) = None"
    by (simp add: example_position_def example_trade_def BookingPosition_def
        BookingPosition_apply_trade_def apply_open_def quantity_def Let_def)
  show ?thesis
    using m p apply_trade_idempotent
      [of BookingModel "example_trade 1 BUY (Some OPEN) 100 10" "example_position 0 0 0"]
    by simp
qed

text \<open>
  Claim C7. A trade whose execution id is not in backward_trade_set goes to one bucket:
  OPEN with BUY to LONG and with SELL to SHORT; CLOSE or CLOSE_TODAY with BUY to SHORT and
  with SELL to LONG; a trade without position effect to LONG, where the position resolves
  BUY to OPEN and SELL to CLOSE. Going to a bucket means: the position under the order
  book id of the trade in that bucket (a new one if there was none) receives the trade
  through \<^verbatim>\<open>BookingPosition.apply_trade\<close>, every other entry of the bucket and the
  whole other bucket are as before.
\<close>

theorem apply_trade_routing:
  assumes "exec_id t \<notin> backward_trade_set b"
  shows "(position_effect t = Some OPEN \<and> side t = BUY \<longrightarrow> select_bucket t = Inr LONG)
    \<and> (position_effect t = Some OPEN \<and> side t = SELL \<longrightarrow> select_bucket t = Inr SHORT)
    \<and> (position_effect t \<in> {Some CLOSE, Some CLOSE_TODAY} \<and> side t = BUY
          \<longrightarrow> select_bucket t = Inr SHORT)
    \<and> (position_effect t \<in> {Some CLOSE, Some CLOSE_TODAY} \<and> side t = SELL
          \<longrightarrow> select_bucket t = Inr LONG)
    \<and> (position_effect t = None \<longrightarrow> select_bucket t = Inr LONG
          \<and> (side t = BUY \<longrightarrow> get_position_effect (side t) (position_effect t) = Some OPEN)
          \<and> (side t = SELL \<longrightarrow> get_position_effect (side t) (position_effect t) = Some CLOSE))
    \<and> (\<forall>dir. select_bucket t = Inr dir \<longrightarrow>
          map_of (positions_dict (snd (BookingModel_apply_trade b t)) dir)
            = (map_of (positions_dict b dir))
                (order_book_id t \<mapsto>
                   snd (BookingPosition_apply_trade
                          (snd (getitem dir (positions_dict b dir) (order_book_id t))) t))
          \<and> (\<forall>dir'. dir' \<noteq> dir \<longrightarrow>
                positions_dict (snd (BookingModel_apply_trade b t)) dir'
                  = positions_dict b dir'))"
proof -
  have "map_of (positions_dict (snd (BookingModel_apply_trade b t)) dir)
            = (map_of (positions_dict b dir))
                (order_book_id t \<mapsto>
                   snd (BookingPosition_apply_trade
                          (snd (getitem dir (positions_dict b dir) (order_book_id t))) t))
          \<and> (\<forall>dir'. dir' \<noteq> dir \<longrightarrow>
                positions_dict (snd (BookingModel_apply_trade b t)) dir'
                  = positions_dict b dir')"
    if "select_bucket t = Inr dir" for dir
    by (simp add: model_apply_trade_buckets [OF assms that] update_conv' map_of_getitem)
  then show ?thesis
    by (auto simp add: select_bucket_def)
qed

theorem apply_trade_routing_witness:
  "exec_id (example_trade 1 BUY (Some OPEN) 100 10) \<notin> backward_trade_set BookingModel
   \<and> select_bucket (example_trade 1 BUY (Some OPEN) 100 10) = Inr LONG
   \<and> map_of (positions_dict (snd (BookingModel_apply_trade BookingModel
         (example_trade 1 BUY (Some OPEN) 100 10))) LONG)
      = [''000001.XSHE'' \<mapsto>
           snd (BookingPosition_apply_trade (BookingPosition ''000001.XSHE'' LONG)
                  (example_trade 1 BUY (Some OPEN) 100 10))]
   \<and> positions_dict (snd (BookingModel_apply_trade BookingModel
         (example_trade 1 BUY (Some OPEN) 100 10))) SHORT = []
   \<and> select_bucket (example_trade 2 SELL None 100 10) = Inr LONG
   \<and> get_position_effect (side (example_trade 2 SELL None 100 10))
        (position_effect (example_trade 2 SELL None 100 10)) = Some CLOSE
   \<and> select_bucket (example_trade 3 BUY (Some CLOSE_TODAY) 100 10) = Inr SHORT
   \<and> select_bucket (example_trade 4 SELL (Some OPEN) 100 10) = Inr SHORT"
proof -
  have gate: "exec_id t \<notin> backward_trade_set BookingModel" for t :: trade
    by (simp add: BookingModel_def)
  have sel: "select_bucket (example_trade 1 BUY (Some OPEN) 100 10) = Inr LONG"
    using apply_trade_routing [OF gate, of "example_trade 1 BUY (Some OPEN) 100 10"]
    by (simp add: example_trade_def)
  have long: "map_of (positions_dict (snd (BookingModel_apply_trade BookingModel
         (example_trade 1 BUY (Some OPEN) 100 10))) LONG)
      = (map_of (positions_dict BookingModel LONG))
          (order_book_id (example_trade 1 BUY (Some OPEN) 100 10) \<mapsto>
             snd (BookingPosition_apply_trade
                    (snd (getitem LONG (positions_dict BookingModel LONG)
                            (order_book_id (example_trade 1 BUY (Some OPEN) 100 10))))
                    (example_trade 1 BUY (Some OPEN) 100 10)))"
    and short: "positions_dict (snd (BookingModel_apply_trade BookingModel
         (example_trade 1 BUY (Some OPEN) 100 10))) SHORT = positions_dict BookingModel SHORT"
    using apply_trade_routing [OF gate, of "example_trade 1 BUY (Some OPEN) 100 10"] sel
    by simp_all
  have empty: "positions_dict BookingModel dir = []" for dir
    by (cases dir) (simp_all add: positions_dict_def BookingModel_def)
  have rest: "select_bucket (example_trade 2 SELL None 100 10) = Inr LONG
   \<and> get_position_effect (side (example_trade 2 SELL None 100 10))
        (position_effect (example_trade 2 SELL None 100 10)) = Some CLOSE
   \<and> select_bucket (example_trade 3 BUY (Some CLOSE_TODAY) 100 10) = Inr SHORT
   \<and> select_bucket (example_trade 4 SELL (Some OPEN) 100 10) = Inr SHORT"
    using apply_trade_routing [OF gate, of "example_trade 2 SELL None 100 10"]
      apply_trade_routing [OF gate, of "example_trade 3 BUY (Some CLOSE_TODAY) 100 10"]
      apply_trade_routing [OF gate, of "example_trade 4 SELL (Some OPEN) 100 10"]
    by (simp add: example_trade_def)
  have key: "order_book_id (example_trade e s pe x y) = ''000001.XSHE''" for e s pe x y
    by (simp add: example_trade_def)
  show ?thesis
    using gate sel rest long short
    by (simp add: empty key getitem_def)
qed

text \<open>
  Claim C8. (1) For a trade whose execution id is not in backward_trade_set (one that is,
  is skipped at line 63 whatever its fields), with effect OPEN, CLOSE or CLOSE_TODAY and a
  side that is neither BUY nor SELL, \<^verbatim>\<open>BookingModel.apply_trade\<close> raises a RuntimeError
  and the ledger is as before. (2) For a trade that is new to the position, with a resolved
  effect that is none of OPEN, CLOSE, CLOSE_TODAY, \<^verbatim>\<open>BookingPosition.apply_trade\<close>
  raises a RuntimeError. (3) Whatever \<^verbatim>\<open>BookingPosition.apply_trade\<close> raises, the
  position is as before and does not hold the execution id. (4) Whatever
  \<^verbatim>\<open>BookingModel.apply_trade\<close> raises, backward_trade_set is as before and does not
  hold the execution id, every position of the ledger is as before, the only entry that
  can be new is an empty position under the order book id of the trade in the chosen
  bucket, and the position the trade went to does not hold the execution id.
\<close>

theorem malformed_trade_aborts:
  "(exec_id t \<notin> backward_trade_set b
      \<and> position_effect t \<in> {Some OPEN, Some CLOSE, Some CLOSE_TODAY}
      \<and> side t \<noteq> BUY \<and> side t \<noteq> SELL
      \<longrightarrow> (\<exists>m. fst (BookingModel_apply_trade b t) = Some (RuntimeError m))
          \<and> snd (BookingModel_apply_trade b t) = b)
   \<and> (trades p (exec_id t) = None
      \<and> get_position_effect (side t) (position_effect t)
           \<notin> {Some OPEN, Some CLOSE, Some CLOSE_TODAY}
      \<longrightarrow> (\<exists>m. fst (BookingPosition_apply_trade p t) = Some (RuntimeError m)))
   \<and> (\<forall>e. fst (BookingPosition_apply_trade p t) = Some e
      \<longrightarrow> snd (BookingPosition_apply_trade p t) = p \<and> trades p (exec_id t) = None)
   \<and> (\<forall>e. fst (BookingModel_apply_trade b t) = Some e
      \<longrightarrow> backward_trade_set (snd (BookingModel_apply_trade b t)) = backward_trade_set b
          \<and> exec_id t \<notin> backward_trade_set (snd (BookingModel_apply_trade b t))
          \<and> (\<forall>dir k q. map_of (positions_dict b dir) k = Some q
                \<longrightarrow> map_of (positions_dict (snd (BookingModel_apply_trade b t)) dir) k = Some q)
          \<and> (\<forall>dir k q. map_of (positions_dict (snd (BookingModel_apply_trade b t)) dir) k = Some q
                \<longrightarrow> map_of (positions_dict b dir) k = Some q
                    \<or> (map_of (positions_dict b dir) k = None \<and> k = order_book_id t
                        \<and> select_bucket t = Inr dir \<and> q = BookingPosition k dir))
          \<and> (\<forall>dir q. select_bucket t = Inr dir
                \<and> map_of (positions_dict (snd (BookingModel_apply_trade b t)) dir)
                     (order_book_id t) = Some q
                \<longrightarrow> trades q (exec_id t) = None))"
proof -
  have A: "(\<exists>m. fst (BookingModel_apply_trade b t) = Some (RuntimeError m))
          \<and> snd (BookingModel_apply_trade b t) = b"
    if "exec_id t \<notin> backward_trade_set b"
      and "position_effect t \<in> {Some OPEN, Some CLOSE, Some CLOSE_TODAY}"
      and "side t \<noteq> BUY" and "side t \<noteq> SELL"
    using that by (auto simp add: BookingModel_apply_trade_def select_bucket_def)
  have B: "\<exists>m. fst (BookingPosition_apply_trade p t) = Some (RuntimeError m)"
    if "trades p (exec_id t) = None"
      and "get_position_effect (side t) (position_effect t)
           \<notin> {Some OPEN, Some CLOSE, Some CLOSE_TODAY}"
    using that
    by (auto simp add: BookingPosition_apply_trade_def Let_def
        split: option.splits POSITION_EFFECT.splits)
  have C: "snd (BookingPosition_apply_trade p t) = p \<and> trades p (exec_id t) = None"
    if "fst (BookingPosition_apply_trade p t) = Some e" for e
    using that by (simp add: apply_trade_raise_unchanged apply_trade_raise_gate)
  have D: "backward_trade_set (snd (BookingModel_apply_trade b t)) = backward_trade_set b
          \<and> exec_id t \<notin> backward_trade_set (snd (BookingModel_apply_trade b t))
          \<and> (\<forall>dir k q. map_of (positions_dict b dir) k = Some q
                \<longrightarrow> map_of (positions_dict (snd (BookingModel_apply_trade b t)) dir) k = Some q)
          \<and> (\<forall>dir k q. map_of (positions_dict (snd (BookingModel_apply_trade b t)) dir) k = Some q
                \<longrightarrow> map_of (positions_dict b dir) k = Some q
                    \<or> (map_of (positions_dict b dir) k = None \<and> k = order_book_id t
                        \<and> select_bucket t = Inr dir \<and> q = BookingPosition k dir))
          \<and> (\<forall>dir q. select_bucket t = Inr dir
                \<and> map_of (positions_dict (snd (BookingModel_apply_trade b t)) dir)
                     (order_book_id t) = Some q
                \<longrightarrow> trades q (exec_id t) = None)"
    if raised: "fst (BookingModel_apply_trade b t) = Some e" for e
  proof -
    note sets = model_apply_trade_raise_set [OF raised]
    from model_apply_trade_raise_cases [OF raised] show ?thesis
    proof (elim disjE exE conjE)
      fix m
      assume "select_bucket t = Inl m" and "snd (BookingModel_apply_trade b t) = b"
      with sets show ?thesis by simp
    next
      fix dir
      assume sel: "select_bucket t = Inr dir"
        and pr: "fst (BookingPosition_apply_trade
                   (snd (getitem dir (positions_dict b dir) (order_book_id t))) t) = Some e"
        and st: "snd (BookingModel_apply_trade b t)
              = set_positions dir (fst (getitem dir (positions_dict b dir) (order_book_id t))) b"
      have fresh: "trades (snd (getitem dir (positions_dict b dir) (order_book_id t)))
                     (exec_id t) = None"
        using pr by (rule apply_trade_raise_gate)
      have got: "snd (getitem dir (positions_dict b dir) (order_book_id t)) =
          (case map_of (positions_dict b dir) (order_book_id t) of
             Some q \<Rightarrow> q | None \<Rightarrow> BookingPosition (order_book_id t) dir)"
        by (simp add: getitem_def split: option.splits)
      show ?thesis
        using sets sel fresh got
        by (auto simp add: st positions_dict_set_positions map_of_getitem
            split: if_splits option.splits)
    qed
  qed
  from A B C D show ?thesis by blast
qed

theorem malformed_trade_aborts_witness:
  "(exec_id (example_trade 7 SIDE_OTHER (Some CLOSE) 100 10) \<notin> backward_trade_set BookingModel
    \<and> position_effect (example_trade 7 SIDE_OTHER (Some CLOSE) 100 10)
          \<in> {Some OPEN, Some CLOSE, Some CLOSE_TODAY}
    \<and> side (example_trade 7 SIDE_OTHER (Some CLOSE) 100 10) \<noteq> BUY
    \<and> side (example_trade 7 SIDE_OTHER (Some CLOSE) 100 10) \<noteq> SELL)
   \<and> (\<exists>m. fst (BookingModel_apply_trade BookingModel
                 (example_trade 7 SIDE_OTHER (Some CLOSE) 100 10)) = Some (RuntimeError m))
   \<and> snd (BookingModel_apply_trade BookingModel
             (example_trade 7 SIDE_OTHER (Some CLOSE) 100 10)) = BookingModel
   \<and> (trades (example_position 5 3 40) (exec_id (example_trade 8 SIDE_OTHER None 100 10)) = None
    \<and> get_position_effect (side (example_trade 8 SIDE_OTHER None 100 10))
         (position_effect (example_trade 8 SIDE_OTHER None 100 10))
          \<notin> {Some OPEN, Some CLOSE, Some CLOSE_TODAY})
   \<and> (\<exists>m. fst (BookingPosition_apply_trade (example_position 5 3 40)
                 (example_trade 8 SIDE_OTHER None 100 10)) = Some (RuntimeError m))
   \<and> snd (BookingPosition_apply_trade (example_position 5 3 40)
             (example_trade 8 SIDE_OTHER None 100 10)) = example_position 5 3 40
   \<and> fst (BookingModel_apply_trade BookingModel (example_trade 8 SIDE_OTHER None 100 10))
       = Some (RuntimeError ''Unknown side when apply trade: '')
   \<and> backward_trade_set (snd (BookingModel_apply_trade BookingModel
        (example_trade 8 SIDE_OTHER None 100 10))) = backward_trade_set BookingModel
   \<and> exec_id (example_trade 8 SIDE_OTHER None 100 10)
        \<notin> backward_trade_set (snd (BookingModel_apply_trade BookingModel
             (example_trade 8 SIDE_OTHER None 100 10)))"
proof -
  have a: "exec_id (example_trade 7 SIDE_OTHER (Some CLOSE) 100 10) \<notin> backward_trade_set BookingModel
    \<and> position_effect (example_trade 7 SIDE_OTHER (Some CLOSE) 100 10)
          \<in> {Some OPEN, Some CLOSE, Some CLOSE_TODAY}
    \<and> side (example_trade 7 SIDE_OTHER (Some CLOSE) 100 10) \<noteq> BUY
    \<and> side (example_trade 7 SIDE_OTHER (Some CLOSE) 100 10) \<noteq> SELL"
    by (simp add: example_trade_def BookingModel_def)
  have b: "trades (example_position 5 3 40) (exec_id (example_trade 8 SIDE_OTHER None 100 10)) = None
    \<and> get_position_effect (side (example_trade 8 SIDE_OTHER None 100 10))
         (position_effect (example_trade 8 SIDE_OTHER None 100 10))
          \<notin> {Some OPEN, Some CLOSE, Some CLOSE_TODAY}"
    by (simp add: example_trade_def example_position_def BookingPosition_def)
  have c: "fst (BookingModel_apply_trade BookingModel (example_trade 8 SIDE_OTHER None 100 10))
       = Some (RuntimeError ''Unknown side when apply trade: '')"
    by (simp add: BookingModel_apply_trade_def BookingModel_def example_trade_def
        select_bucket_def getitem_def positions_dict_def BookingPosition_def
        BookingPosition_apply_trade_def Let_def)
  note first = malformed_trade_aborts
    [of "example_trade 7 SIDE_OTHER (Some CLOSE) 100 10" BookingModel "example_position 5 3 40"]
  note second = malformed_trade_aborts
    [of "example_trade 8 SIDE_OTHER None 100 10" BookingModel "example_position 5 3 40"]
  from first a have 1: "(\<exists>m. fst (BookingModel_apply_trade BookingModel
                 (example_trade 7 SIDE_OTHER (Some CLOSE) 100 10)) = Some (RuntimeError m))
   \<and> snd (BookingModel_apply_trade BookingModel
             (example_trade 7 SIDE_OTHER (Some CLOSE) 100 10)) = BookingModel"
    by blast
  from second b have 2: "\<exists>m. fst (BookingPosition_apply_trade (example_position 5 3 40)
                 (example_trade 8 SIDE_OTHER None 100 10)) = Some (RuntimeError m)"
    by blast
  with second have 3: "snd (BookingPosition_apply_trade (example_position 5 3 40)
             (example_trade 8 SIDE_OTHER None 100 10)) = example_position 5 3 40"
    by blast
  from second c have 4: "backward_trade_set (snd (BookingModel_apply_trade BookingModel
        (example_trade 8 SIDE_OTHER None 100 10))) = backward_trade_set BookingModel
   \<and> exec_id (example_trade 8 SIDE_OTHER None 100 10)
        \<notin> backward_trade_set (snd (BookingModel_apply_trade BookingModel
             (example_trade 8 SIDE_OTHER None 100 10)))"
    by blast
  from a b c 1 2 3 4 show ?thesis by blast
qed

subsection \<open>The claims about the settlement of a position\<close>

text \<open>
  Claim C4. Settlement of a position adds today_quantity to old_quantity, stores the sum as
  logical_old_quantity, sets today_quantity to 0 and empties the trades map; old_quantity is
  the sum, times the split ratio when there is one; prev_settlement_price is the settlement
  price of the day for a future and the last close otherwise. The example of the claim
  (old_quantity 0, today_quantity 7, avg_price 50, no split) is the witness.
\<close>

theorem settlement_rollover:
  "logical_old_quantity (BookingPosition_apply_settlement dp p d)
     = old_quantity p + today_quantity p
   \<and> today_quantity (BookingPosition_apply_settlement dp p d) = 0
   \<and> trades (BookingPosition_apply_settlement dp p d) = Map.empty
   \<and> old_quantity (BookingPosition_apply_settlement dp p d)
     = (case get_split_by_ex_date dp (position_order_book_id p)
               (date_of (get_next_trading_date dp d)) of
          None \<Rightarrow> old_quantity p + today_quantity p
        | Some r \<Rightarrow> if r = 0 then old_quantity p + today_quantity p
                    else (old_quantity p + today_quantity p) * r)
   \<and> prev_settlement_price (BookingPosition_apply_settlement dp p d)
     = (if instrument_type (instruments dp (position_order_book_id p)) = ''Future''
        then get_settle_price dp (position_order_book_id p) d
        else history_bars_close dp (position_order_book_id p) d)"
  by (simp add: BookingPosition_apply_settlement_def Let_def split: option.splits)

theorem settlement_rollover_witness:
  "old_quantity (BookingPosition_apply_settlement (example_proxy None)
       (example_position 0 7 50) 20200102) = 7
   \<and> today_quantity (BookingPosition_apply_settlement (example_proxy None)
       (example_position 0 7 50) 20200102) = 0
   \<and> logical_old_quantity (BookingPosition_apply_settlement (example_proxy None)
       (example_position 0 7 50) 20200102) = 7
   \<and> trades (BookingPosition_apply_settlement (example_proxy None)
       (example_position 0 7 50) 20200102) = Map.empty
   \<and> prev_settlement_price (BookingPosition_apply_settlement (example_proxy None)
       (example_position 0 7 50) 20200102) = 55"
  using settlement_rollover [of "example_proxy None" "example_position 0 7 50" 20200102]
  by (simp add: example_proxy_def example_position_def BookingPosition_def)

text \<open>
  Claim C6, as the claim states it, fails in its parenthesis: the float operations of lines
  220 and 221 do not preserve the product of old_quantity and avg_price. With old_quantity
  10, avg_price 100 and the ratio 3, the multiplication gives 30 and the division gives the
  binary64 number nearest to 100 / 3, which is \<open>4691249611844267 / 2 ^ 47\<close> (Python prints
  33.333333333333336). The product of the two, rounded, is \<open>1000 + 1 / 2 ^ 43\<close> (Python
  prints 1000.0000000000001), and the product before the split is 1000.
\<close>

theorem split_product_counterexample:
  "get_split_by_ex_date (example_proxy (Some 3))
      (position_order_book_id (example_position 10 0 100))
      (date_of (get_next_trading_date (example_proxy (Some 3)) 20200102)) = Some 3
   \<and> old_quantity (BookingPosition_apply_settlement_binary64 (example_proxy (Some 3))
       (example_position 10 0 100) 20200102) = 30
   \<and> avg_price (BookingPosition_apply_settlement_binary64 (example_proxy (Some 3))
       (example_position 10 0 100) 20200102) = 4691249611844267 / 2 ^ 47
   \<and> binary64 (old_quantity (example_position 10 0 100) * avg_price (example_position 10 0 100))
       = 1000
   \<and> binary64
        (old_quantity (BookingPosition_apply_settlement_binary64 (example_proxy (Some 3))
           (example_position 10 0 100) 20200102)
         * avg_price (BookingPosition_apply_settlement_binary64 (example_proxy (Some 3))
           (example_position 10 0 100) 20200102))
       = 1000 + 1 / 2 ^ 43
   \<and> old_quantity (BookingPosition_apply_settlement_binary64 (example_proxy (Some 3))
         (example_position 10 0 100) 20200102)
       * avg_price (BookingPosition_apply_settlement_binary64 (example_proxy (Some 3))
         (example_position 10 0 100) 20200102)
       \<noteq> old_quantity (example_position 10 0 100) * avg_price (example_position 10 0 100)"
proof -
  have sum: "binary64 (10 + 0) = 10" by code_simp
  have mul: "binary64 (10 * 3) = 30" by code_simp
  have quot: "binary64 (100 / 3) = 4691249611844267 / 2 ^ 47" by code_simp
  have before: "binary64 (10 * 100) = 1000" by code_simp
  have after: "binary64 (30 * (4691249611844267 / 2 ^ 47)) = 1000 + 1 / 2 ^ 43" by code_simp
  have old: "old_quantity (BookingPosition_apply_settlement_binary64 (example_proxy (Some 3))
       (example_position 10 0 100) 20200102) = binary64 (binary64 (10 + 0) * 3)"
    and avg: "avg_price (BookingPosition_apply_settlement_binary64 (example_proxy (Some 3))
       (example_position 10 0 100) 20200102) = binary64 (100 / 3)"
    by (simp_all add: BookingPosition_apply_settlement_binary64_def Let_def example_proxy_def
        example_position_def BookingPosition_def)
  have p: "old_quantity (example_position 10 0 100) = 10"
    "avg_price (example_position 10 0 100) = 100"
    by (simp_all add: example_position_def)
  have split: "get_split_by_ex_date (example_proxy (Some 3))
      (position_order_book_id (example_position 10 0 100))
      (date_of (get_next_trading_date (example_proxy (Some 3)) 20200102)) = Some 3"
    by (simp add: example_proxy_def)
  show ?thesis
    unfolding old avg p sum mul quot before after
    using split by simp
qed

text \<open>
  Claim C6, amended. When the data proxy reports a split ratio \<open>r\<close> other than 0 for the
  next trading date, settlement multiplies old_quantity (after today_quantity has been
  added to it) by \<open>r\<close> and divides avg_price by \<open>r\<close>. When it reports no ratio, this
  step changes neither (and a ratio 0 fails the test of line 219 as \<^verbatim>\<open>None\<close> does).
  Nothing is said of the product. The witness is the 2:1 split of the claim on
  old_quantity 10 and avg_price 100, which gives 20 and 50, also when every result is
  rounded to binary64.
\<close>

theorem split_adjustment:
  "(get_split_by_ex_date dp (position_order_book_id p) (date_of (get_next_trading_date dp d))
      = Some r \<and> r \<noteq> 0 \<longrightarrow>
      old_quantity (BookingPosition_apply_settlement dp p d)
        = (old_quantity p + today_quantity p) * r
      \<and> avg_price (BookingPosition_apply_settlement dp p d) = avg_price p / r)
   \<and> (get_split_by_ex_date dp (position_order_book_id p) (date_of (get_next_trading_date dp d))
        \<in> {None, Some 0} \<longrightarrow>
      old_quantity (BookingPosition_apply_settlement dp p d)
        = old_quantity p + today_quantity p
      \<and> avg_price (BookingPosition_apply_settlement dp p d) = avg_price p)"
  by (auto simp add: BookingPosition_apply_settlement_def Let_def)

theorem split_adjustment_witness:
  "get_split_by_ex_date (example_proxy (Some 2))
      (position_order_book_id (example_position 10 0 100))
      (date_of (get_next_trading_date (example_proxy (Some 2)) 20200102)) = Some 2
   \<and> (2::rat) \<noteq> 0
   \<and> old_quantity (BookingPosition_apply_settlement (example_proxy (Some 2))
       (example_position 10 0 100) 20200102) = 20
   \<and> avg_price (BookingPosition_apply_settlement (example_proxy (Some 2))
       (example_position 10 0 100) 20200102) = 50
   \<and> old_quantity (BookingPosition_apply_settlement_binary64 (example_proxy (Some 2))
       (example_position 10 0 100) 20200102) = 20
   \<and> avg_price (BookingPosition_apply_settlement_binary64 (example_proxy (Some 2))
       (example_position 10 0 100) 20200102) = 50
   \<and> get_split_by_ex_date (example_proxy None)
      (position_order_book_id (example_position 10 0 100))
      (date_of (get_next_trading_date (example_proxy None) 20200102)) = None
   \<and> old_quantity (BookingPosition_apply_settlement (example_proxy None)
       (example_position 10 0 100) 20200102) = 10
   \<and> avg_price (BookingPosition_apply_settlement (example_proxy None)
       (example_position 10 0 100) 20200102) = 100"
proof -
  have sum: "binary64 (10 + 0) = 10" by code_simp
  have mul: "binary64 (10 * 2) = 20" by code_simp
  have quot: "binary64 (100 / 2) = 50" by code_simp
  have old: "old_quantity (BookingPosition_apply_settlement_binary64 (example_proxy (Some 2))
       (example_position 10 0 100) 20200102) = binary64 (binary64 (10 + 0) * 2)"
    and avg: "avg_price (BookingPosition_apply_settlement_binary64 (example_proxy (Some 2))
       (example_position 10 0 100) 20200102) = binary64 (100 / 2)"
    by (simp_all add: BookingPosition_apply_settlement_binary64_def Let_def example_proxy_def
        example_position_def BookingPosition_def)
  have floats: "old_quantity (BookingPosition_apply_settlement_binary64 (example_proxy (Some 2))
       (example_position 10 0 100) 20200102) = 20
     \<and> avg_price (BookingPosition_apply_settlement_binary64 (example_proxy (Some 2))
       (example_position 10 0 100) 20200102) = 50"
    unfolding old avg sum mul quot by simp
  show ?thesis
    using split_adjustment [of "example_proxy (Some 2)" "example_position 10 0 100" 20200102 2]
      split_adjustment [of "example_proxy None" "example_position 10 0 100" 20200102 2]
      floats
    by (simp add: example_proxy_def example_position_def BookingPosition_def)
qed

text \<open>
  Claim C10, as the claim states it, fails at two inputs. A flat position settled under the
  ratio 2 ends with logical_old_quantity = old_quantity = 0, though the ratio is not 1. A
  position of quantity 3 settled under the ratio 0 keeps old_quantity 3, which is not
  3 * 0, since line 219 takes the ratio 0 for no ratio.
\<close>

theorem split_baseline_counterexample:
  "get_split_by_ex_date (example_proxy (Some 2))
      (position_order_book_id (example_position 0 0 0))
      (date_of (get_next_trading_date (example_proxy (Some 2)) 20200102)) = Some 2
   \<and> (2::rat) \<noteq> 1
   \<and> logical_old_quantity (BookingPosition_apply_settlement (example_proxy (Some 2))
       (example_position 0 0 0) 20200102)
     = old_quantity (BookingPosition_apply_settlement (example_proxy (Some 2))
       (example_position 0 0 0) 20200102)
   \<and> get_split_by_ex_date (example_proxy (Some 0))
      (position_order_book_id (example_position 2 1 10))
      (date_of (get_next_trading_date (example_proxy (Some 0)) 20200102)) = Some 0
   \<and> quantity (example_position 2 1 10) = 3
   \<and> old_quantity (BookingPosition_apply_settlement (example_proxy (Some 0))
       (example_position 2 1 10) 20200102) = 3
   \<and> (3::rat) \<noteq> 3 * 0"
  by (simp add: BookingPosition_apply_settlement_def Let_def example_proxy_def
      example_position_def BookingPosition_def quantity_def)

text \<open>
  Claim C10, amended. When settlement finds a split ratio \<open>r\<close> other than 0 for the next
  trading date and the quantity of the position before settlement is \<open>q\<close>, then
  afterwards logical_old_quantity is \<open>q\<close> and old_quantity is \<open>q * r\<close>;
  so logical_old_quantity differs from old_quantity whenever \<open>r\<close> is not 1 and
  \<open>q\<close> is not 0.
\<close>

theorem split_keeps_baseline:
  assumes "get_split_by_ex_date dp (position_order_book_id p)
             (date_of (get_next_trading_date dp d)) = Some r"
    and "r \<noteq> 0"
    and "quantity p = q"
  shows "logical_old_quantity (BookingPosition_apply_settlement dp p d) = q
    \<and> old_quantity (BookingPosition_apply_settlement dp p d) = q * r
    \<and> (r \<noteq> 1 \<and> q \<noteq> 0 \<longrightarrow>
         logical_old_quantity (BookingPosition_apply_settlement dp p d)
           \<noteq> old_quantity (BookingPosition_apply_settlement dp p d))"
  using assms
  by (auto simp add: BookingPosition_apply_settlement_def Let_def quantity_def)

theorem split_keeps_baseline_witness:
  "get_split_by_ex_date (example_proxy (Some 2))
      (position_order_book_id (example_position 4 6 100))
      (date_of (get_next_trading_date (example_proxy (Some 2)) 20200102)) = Some 2
   \<and> (2::rat) \<noteq> 0 \<and> (2::rat) \<noteq> 1 \<and> (10::rat) \<noteq> 0
   \<and> quantity (example_position 4 6 100) = 10
   \<and> logical_old_quantity (BookingPosition_apply_settlement (example_proxy (Some 2))
       (example_position 4 6 100) 20200102) = 10
   \<and> old_quantity (BookingPosition_apply_settlement (example_proxy (Some 2))
       (example_position 4 6 100) 20200102) = 20
   \<and> logical_old_quantity (BookingPosition_apply_settlement (example_proxy (Some 2))
       (example_position 4 6 100) 20200102)
     \<noteq> old_quantity (BookingPosition_apply_settlement (example_proxy (Some 2))
       (example_position 4 6 100) 20200102)"
proof -
  have a: "get_split_by_ex_date (example_proxy (Some 2))
      (position_order_book_id (example_position 4 6 100))
      (date_of (get_next_trading_date (example_proxy (Some 2)) 20200102)) = Some 2"
    by (simp add: example_proxy_def)
  have b: "(2::rat) \<noteq> 0" by simp
  have c: "quantity (example_position 4 6 100) = 10"
    by (simp add: quantity_def example_position_def)
  show ?thesis
    using split_keeps_baseline [OF a b c] a c by simp
qed

subsection \<open>The claim about the settlement of the ledger\<close>

text \<open>
  Claim C5. On a ledger whose buckets are dicts (no key twice),
  \<^verbatim>\<open>BookingModel.apply_settlement\<close> raises nothing, and each bucket afterwards holds, in
  the order of before, the positions that were neither delisted as of the trading date nor
  flat before the call, each settled by \<^verbatim>\<open>BookingPosition.apply_settlement\<close>; the
  positions that were delisted or flat are gone, and backward_trade_set is as before. The
  first loop settles exactly the positions it does not mark: a marked position is still in
  the bucket after the loop, as it was. The last part reads the buckets as maps: a key is
  bound after the call if and only if it was bound to a position that is neither delisted
  nor flat, and then to the settled position.
\<close>

theorem settlement_evicts:
  assumes "dict_keys_distinct b"
  shows "fst (BookingModel_apply_settlement dp b d) = None
    \<and> long_positions (snd (BookingModel_apply_settlement dp b d))
        = map (\<lambda>(k, p). (k, BookingPosition_apply_settlement dp p d))
            (filter (\<lambda>(k, p). \<not> (is_de_listed dp p d \<or> quantity p = 0)) (long_positions b))
    \<and> short_positions (snd (BookingModel_apply_settlement dp b d))
        = map (\<lambda>(k, p). (k, BookingPosition_apply_settlement dp p d))
            (filter (\<lambda>(k, p). \<not> (is_de_listed dp p d \<or> quantity p = 0)) (short_positions b))
    \<and> backward_trade_set (snd (BookingModel_apply_settlement dp b d)) = backward_trade_set b
    \<and> fst (scan_positions dp d dir ps dl)
        = map (\<lambda>(k, p). (k, if is_de_listed dp p d \<or> quantity p = 0 then p
                              else BookingPosition_apply_settlement dp p d)) ps
    \<and> (\<forall>dir' k. map_of (positions_dict (snd (BookingModel_apply_settlement dp b d)) dir') k
          = (case map_of (positions_dict b dir') k of
               None \<Rightarrow> None
             | Some p \<Rightarrow> if is_de_listed dp p d \<or> quantity p = 0 then None
                         else Some (BookingPosition_apply_settlement dp p d)))"
proof (intro conjI allI)
  note eq = model_apply_settlement_eq [OF assms, of dp d]
  show "fst (BookingModel_apply_settlement dp b d) = None"
    by (simp add: eq)
  show "long_positions (snd (BookingModel_apply_settlement dp b d))
        = map (\<lambda>(k, p). (k, BookingPosition_apply_settlement dp p d))
            (filter (\<lambda>(k, p). \<not> (is_de_listed dp p d \<or> quantity p = 0)) (long_positions b))"
    by (simp add: eq evicted_def)
  show "short_positions (snd (BookingModel_apply_settlement dp b d))
        = map (\<lambda>(k, p). (k, BookingPosition_apply_settlement dp p d))
            (filter (\<lambda>(k, p). \<not> (is_de_listed dp p d \<or> quantity p = 0)) (short_positions b))"
    by (simp add: eq evicted_def)
  show "backward_trade_set (snd (BookingModel_apply_settlement dp b d)) = backward_trade_set b"
    by (simp add: eq)
  show "fst (scan_positions dp d dir ps dl)
        = map (\<lambda>(k, p). (k, if is_de_listed dp p d \<or> quantity p = 0 then p
                              else BookingPosition_apply_settlement dp p d)) ps"
    by (simp add: scan_positions_eq evicted_def)
  fix dir' k
  from assms have dist: "distinct (map fst (positions_dict b dir'))"
    by (cases dir') (simp_all add: dict_keys_distinct_def positions_dict_def)
  have "positions_dict (snd (BookingModel_apply_settlement dp b d)) dir'
      = map (\<lambda>(k, p). (k, BookingPosition_apply_settlement dp p d))
          (filter (\<lambda>(k, p). \<not> (is_de_listed dp p d \<or> quantity p = 0)) (positions_dict b dir'))"
    by (cases dir') (simp_all add: eq positions_dict_def evicted_def)
  then show "map_of (positions_dict (snd (BookingModel_apply_settlement dp b d)) dir') k
          = (case map_of (positions_dict b dir') k of
               None \<Rightarrow> None
             | Some p \<Rightarrow> if is_de_listed dp p d \<or> quantity p = 0 then None
                         else Some (BookingPosition_apply_settlement dp p d))"
    by (simp only: map_of_settled [OF dist, of "\<lambda>p. BookingPosition_apply_settlement dp p d"
        "\<lambda>p. is_de_listed dp p d \<or> quantity p = 0" k])
qed

theorem settlement_evicts_witness:
  "dict_keys_distinct example_booking
   \<and> fst (BookingModel_apply_settlement example_proxy_delisted example_booking 20200102) = None
   \<and> map fst (long_positions
        (snd (BookingModel_apply_settlement example_proxy_delisted example_booking 20200102)))
      = [''000002.XSHE'']
   \<and> map (old_quantity \<circ> snd) (long_positions
        (snd (BookingModel_apply_settlement example_proxy_delisted example_booking 20200102)))
      = [7]
   \<and> map fst (short_positions
        (snd (BookingModel_apply_settlement example_proxy_delisted example_booking 20200102)))
      = [''000002.XSHE'']"
proof -
  have wf: "dict_keys_distinct example_booking"
    by (simp add: dict_keys_distinct_def example_booking_def)
  have ev: "quantity (example_position 0 0 0) = 0"
    "is_de_listed example_proxy_delisted
       ((example_position 0 3 10)\<lparr>position_order_book_id := ''IF1912''\<rparr>) 20200102"
    "\<not> is_de_listed example_proxy_delisted
       ((example_position 0 7 50)\<lparr>position_order_book_id := ''000002.XSHE''\<rparr>) 20200102"
    "quantity ((example_position 0 7 50)\<lparr>position_order_book_id := ''000002.XSHE''\<rparr>) \<noteq> 0"
    "\<not> is_de_listed example_proxy_delisted
       ((example_position 4 0 20)\<lparr>position_order_book_id := ''000002.XSHE'',
                                    direction := SHORT\<rparr>) 20200102"
    "quantity ((example_position 4 0 20)\<lparr>position_order_book_id := ''000002.XSHE'',
                                    direction := SHORT\<rparr>) \<noteq> 0"
    by (simp_all add: quantity_def example_position_def BookingPosition_def is_de_listed_def
        example_proxy_delisted_def example_proxy_def date_of_def)
  have old: "old_quantity (BookingPosition_apply_settlement example_proxy_delisted
       ((example_position 0 7 50)\<lparr>position_order_book_id := ''000002.XSHE''\<rparr>) 20200102) = 7"
    by (simp add: BookingPosition_apply_settlement_def Let_def example_position_def
        BookingPosition_def example_proxy_delisted_def example_proxy_def)
  show ?thesis
    using wf settlement_evicts [OF wf, of example_proxy_delisted 20200102]
    by (simp add: example_booking_def ev old)
qed

end
